theory Spec2Isabelle
  imports Complex_Main
begin

section \<open>Exceptions\<close>

text \<open>
  Every \<^verbatim>\<open>raise\<close> of the Python sources is a value of \<open>py_exception\<close>; a function that can
  raise returns \<open>py_exception + 'a\<close> with \<open>Inl\<close> for the exception. Python floats are
  modelled as \<open>real\<close>: comparisons and the arithmetic on the score constants are exact
  there, rounding of IEEE doubles is outside the model.
\<close>

datatype py_exception =
    ValueError string
  | IndexError string
  | ZeroDivisionError string
  | RuntimeError string
  | AttributeError string
  | UnboundLocalError string
  | CollaboratorError string
  | HTTPException nat string

section \<open>Data model of \<^verbatim>\<open>services/golf_analyzer.py\<close>\<close>

text \<open>One MediaPipe landmark, the dict built in \<^verbatim>\<open>_extract_pose_data\<close>.\<close>

record landmark =
  lm_x :: real
  lm_y :: real
  lm_z :: real
  lm_visibility :: real

text \<open>The \<^verbatim>\<open>pose_data\<close> dict: its three keys are fixed by \<^verbatim>\<open>_extract_pose_data\<close>.\<close>

record pose_data =
  landmarks :: "landmark list list"
  frame_timestamps :: "real list"
  confidence_scores :: "real list"

text \<open>Python's \<^verbatim>\<open>range(start, stop)\<close> with step 1 over non-negative bounds.\<close>

record py_range =
  start :: nat
  stop :: nat

definition range_len :: "py_range \<Rightarrow> nat" where
  "range_len r = (if stop r \<le> start r then 0 else stop r - start r)"

definition range_set :: "py_range \<Rightarrow> nat set" where
  "range_set r = {start r ..< stop r}"

text \<open>The \<^verbatim>\<open>phases\<close> dict of \<^verbatim>\<open>_analyze_swing_phases\<close>, with its five fixed keys.\<close>

record swing_phases =
  address :: py_range
  backswing :: py_range
  downswing :: py_range
  impact :: py_range
  follow_through :: py_range

section \<open>Phase segmentation: \<^verbatim>\<open>_analyze_swing_phases\<close>\<close>

definition analyze_swing_phases :: "pose_data \<Rightarrow> py_exception + swing_phases" where
  "analyze_swing_phases pd =
     (let n = length (landmarks pd) in
      if n < 10 then Inl (ValueError ''Insufficient frames for swing analysis'')
      else Inr \<lparr> address = \<lparr> start = 0, stop = n div 4 \<rparr>,
                 backswing = \<lparr> start = n div 4, stop = n div 2 \<rparr>,
                 downswing = \<lparr> start = n div 2, stop = 3 * n div 4 \<rparr>,
                 impact = \<lparr> start = 3 * n div 4, stop = 4 * n div 5 \<rparr>,
                 follow_through = \<lparr> start = 4 * n div 5, stop = n \<rparr> \<rparr>)"

section \<open>Pose extraction: \<^verbatim>\<open>_get_video_info\<close> and \<^verbatim>\<open>_extract_pose_data\<close>\<close>

text \<open>
  What the code reads from OpenCV and MediaPipe for one video: the file name, the frame
  count and frame rate reported by the capture, and for every frame read the landmark list
  of MediaPipe, \<open>None\<close> when \<^verbatim>\<open>results.pose_landmarks\<close> is empty.
\<close>

record video =
  vid_filename :: string
  vid_frame_count :: int
  vid_fps :: real
  vid_frames :: "landmark list option list"

record video_info =
  vi_frame_count :: int
  vi_fps :: real
  vi_duration :: real

definition get_video_info :: "video \<Rightarrow> video_info" where
  "get_video_info v =
     \<lparr> vi_frame_count = vid_frame_count v,
       vi_fps = vid_fps v,
       vi_duration = (if vid_fps v > 0 then real_of_int (vid_frame_count v) / vid_fps v else 0) \<rparr>"

text \<open>Python's \<^verbatim>\<open>xs[i]\<close> for a non-negative index: IndexError out of range.\<close>

definition py_index :: "'a list \<Rightarrow> nat \<Rightarrow> py_exception + 'a" where
  "py_index xs i =
     (if i < length xs then Inr (xs ! i) else Inl (IndexError ''list index out of range''))"

text \<open>
  The \<^verbatim>\<open>while cap.isOpened()\<close> loop over the frames read, with the running
  \<^verbatim>\<open>frame_count\<close> and the \<^verbatim>\<open>pose_data\<close> dict built so far. A frame with a detected pose
  appends its landmarks, its timestamp \<^verbatim>\<open>frame_count / fps\<close> (a float division, which raises
  at \<open>fps = 0\<close>) and the visibility of landmark 0.
\<close>

fun extract_loop :: "real \<Rightarrow> landmark list option list \<Rightarrow> nat \<Rightarrow> pose_data
    \<Rightarrow> py_exception + pose_data" where
  "extract_loop fps [] frame_count pd = Inr pd"
| "extract_loop fps (None # rest) frame_count pd = extract_loop fps rest (frame_count + 1) pd"
| "extract_loop fps (Some lms # rest) frame_count pd =
     (if fps = 0 then Inl (ZeroDivisionError ''float division by zero'')
      else case py_index lms 0 of
        Inl e \<Rightarrow> Inl e
      | Inr l0 \<Rightarrow>
          extract_loop fps rest (frame_count + 1)
            \<lparr> landmarks = landmarks pd @ [lms],
              frame_timestamps = frame_timestamps pd @ [real frame_count / fps],
              confidence_scores = confidence_scores pd @ [lm_visibility l0] \<rparr>)"

definition extract_pose_data :: "video \<Rightarrow> py_exception + pose_data" where
  "extract_pose_data v =
     extract_loop (vid_fps v) (vid_frames v) 0
       \<lparr> landmarks = [], frame_timestamps = [], confidence_scores = [] \<rparr>"

text \<open>The frames in which MediaPipe detected a pose, in order.\<close>

definition detected_frames :: "landmark list option list \<Rightarrow> landmark list list" where
  "detected_frames fs = List.map_filter id fs"

section \<open>Metric extraction: \<^verbatim>\<open>_calculate_swing_metrics\<close> and its helpers\<close>

text \<open>\<^verbatim>\<open>SwingMetrics\<close>; its field \<^verbatim>\<open>follow_through\<close> is \<open>follow_through_angle\<close> here.\<close>

record swing_metrics =
  backswing_angle :: real
  downswing_speed :: real
  follow_through_angle :: real
  hip_rotation :: real
  shoulder_alignment :: real
  weight_transfer :: real
  tempo_ratio :: real

definition calculate_backswing_angle :: "landmark list list \<Rightarrow> py_range \<Rightarrow> py_exception + real" where
  "calculate_backswing_angle lms backswing_range =
     (if range_len backswing_range < 2 then Inr 0
      else case py_index lms (start backswing_range) of
        Inl e \<Rightarrow> Inl e
      | Inr start_frame \<Rightarrow>
          (case py_index lms (stop backswing_range - 1) of
            Inl e \<Rightarrow> Inl e
          | Inr end_frame \<Rightarrow> (let angle = 45 in Inr (max 0 (min 180 angle)))))"

definition calculate_downswing_speed :: "landmark list list \<Rightarrow> py_range \<Rightarrow> real" where
  "calculate_downswing_speed lms downswing_range =
     (if range_len downswing_range < 2 then 0
      else (let speed = 15 in max 0 speed))"

definition calculate_follow_through :: "landmark list list \<Rightarrow> py_range \<Rightarrow> real" where
  "calculate_follow_through lms follow_through_range =
     (if range_len follow_through_range < 2 then 0
      else (let angle = 60 in max 0 (min 180 angle)))"

definition calculate_hip_rotation :: "landmark list list \<Rightarrow> py_range \<Rightarrow> real" where
  "calculate_hip_rotation lms downswing_range =
     (if range_len downswing_range < 2 then 0
      else (let angle = 75 in max 0 (min 180 angle)))"

definition calculate_shoulder_alignment :: "landmark list list \<Rightarrow> py_range \<Rightarrow> real" where
  "calculate_shoulder_alignment lms address_range =
     (if range_len address_range < 1 then 0
      else (let alignment = 68 in max 0 (min 100 alignment)))"

definition calculate_weight_transfer :: "landmark list list \<Rightarrow> swing_phases \<Rightarrow> real" where
  "calculate_weight_transfer lms phases =
     (let efficiency = 75 in max 0 (min 100 efficiency))"

definition calculate_tempo_ratio :: "real list \<Rightarrow> swing_phases \<Rightarrow> real" where
  "calculate_tempo_ratio timestamps phases =
     (if length timestamps < 2 then 1
      else (let ratio = 28 / 10 in max (1 / 2) (min 5 ratio)))"

definition calculate_swing_metrics :: "pose_data \<Rightarrow> swing_phases \<Rightarrow> py_exception + swing_metrics" where
  "calculate_swing_metrics pd phases =
     (case calculate_backswing_angle (landmarks pd) (backswing phases) of
        Inl e \<Rightarrow> Inl e
      | Inr ba \<Rightarrow>
          Inr \<lparr> backswing_angle = ba,
                downswing_speed = calculate_downswing_speed (landmarks pd) (downswing phases),
                follow_through_angle = calculate_follow_through (landmarks pd) (follow_through phases),
                hip_rotation = calculate_hip_rotation (landmarks pd) (downswing phases),
                shoulder_alignment = calculate_shoulder_alignment (landmarks pd) (address phases),
                weight_transfer = calculate_weight_transfer (landmarks pd) phases,
                tempo_ratio = calculate_tempo_ratio (frame_timestamps pd) phases \<rparr>)"

section \<open>Scoring: \<^verbatim>\<open>_generate_scores\<close>\<close>

text \<open>
  The analyzer object: its four optional models, \<open>None\<close> when no model file was loaded.
  The models themselves are opaque (\<open>'m\<close>): the code only tests whether they are present.
\<close>

record 'm analyzer =
  form_model :: "'m option"
  tempo_model :: "'m option"
  power_model :: "'m option"
  accuracy_model :: "'m option"

record swing_scores =
  form_score :: real
  tempo_score :: real
  power_score :: real
  accuracy_score :: real
  overall_score :: real

definition rule_based_form_score :: "swing_metrics \<Rightarrow> real" where
  "rule_based_form_score metrics =
     (let score = 70;
          score = (if shoulder_alignment metrics > 80 then score + 10 else score);
          score = (if hip_rotation metrics > 70 then score + 10 else score);
          score = (if weight_transfer metrics > 80 then score + 10 else score)
      in min 100 score)"

definition rule_based_tempo_score :: "swing_metrics \<Rightarrow> real" where
  "rule_based_tempo_score metrics =
     (let score = 70;
          score = (if 25 / 10 \<le> tempo_ratio metrics \<and> tempo_ratio metrics \<le> 35 / 10 then score + 20
                   else if 2 \<le> tempo_ratio metrics \<and> tempo_ratio metrics \<le> 4 then score + 10
                   else score)
      in min 100 score)"

definition rule_based_power_score :: "swing_metrics \<Rightarrow> real" where
  "rule_based_power_score metrics =
     (let score = 70;
          score = (if downswing_speed metrics > 20 then score + 15 else score);
          score = (if hip_rotation metrics > 80 then score + 15 else score)
      in min 100 score)"

definition rule_based_accuracy_score :: "swing_metrics \<Rightarrow> real" where
  "rule_based_accuracy_score metrics =
     (let score = 70;
          score = (if shoulder_alignment metrics > 85 then score + 15 else score);
          score = (if weight_transfer metrics > 85 then score + 15 else score)
      in min 100 score)"

text \<open>The \<^verbatim>\<open>_predict_*\<close> methods return the rule-based score of their category.\<close>

definition predict_form_score :: "pose_data \<Rightarrow> swing_metrics \<Rightarrow> real" where
  "predict_form_score pd metrics = rule_based_form_score metrics"

definition predict_tempo_score :: "pose_data \<Rightarrow> swing_metrics \<Rightarrow> real" where
  "predict_tempo_score pd metrics = rule_based_tempo_score metrics"

definition predict_power_score :: "pose_data \<Rightarrow> swing_metrics \<Rightarrow> real" where
  "predict_power_score pd metrics = rule_based_power_score metrics"

definition predict_accuracy_score :: "pose_data \<Rightarrow> swing_metrics \<Rightarrow> real" where
  "predict_accuracy_score pd metrics = rule_based_accuracy_score metrics"

definition generate_scores :: "'m analyzer \<Rightarrow> pose_data \<Rightarrow> swing_metrics \<Rightarrow> swing_scores" where
  "generate_scores a pd metrics =
     (let form = (case form_model a of
                    Some _ \<Rightarrow> predict_form_score pd metrics
                  | None \<Rightarrow> rule_based_form_score metrics);
          tempo = (case tempo_model a of
                    Some _ \<Rightarrow> predict_tempo_score pd metrics
                  | None \<Rightarrow> rule_based_tempo_score metrics);
          power = (case power_model a of
                    Some _ \<Rightarrow> predict_power_score pd metrics
                  | None \<Rightarrow> rule_based_power_score metrics);
          accuracy = (case accuracy_model a of
                    Some _ \<Rightarrow> predict_accuracy_score pd metrics
                  | None \<Rightarrow> rule_based_accuracy_score metrics);
          overall = (form + tempo + power + accuracy) / 4
      in \<lparr> form_score = form, tempo_score = tempo, power_score = power,
           accuracy_score = accuracy, overall_score = overall \<rparr>)"

section \<open>Recommendations: \<^verbatim>\<open>_generate_recommendations\<close>\<close>

record swing_recommendations =
  strengths :: "string list"
  areas_for_improvement :: "string list"
  specific_recommendations :: "string list"
  practice_drills :: "string list"
  priority_level :: string

definition generate_recommendations :: "swing_scores \<Rightarrow> swing_metrics \<Rightarrow> swing_recommendations" where
  "generate_recommendations scores metrics =
     (let strs = [];
          areas = [];
          recs = [];
          drills = [];
          strs = (if form_score scores > 85 then strs @ [''Excellent form fundamentals''] else strs);
          strs = (if tempo_score scores > 85 then strs @ [''Good tempo control''] else strs);
          strs = (if power_score scores > 85 then strs @ [''Strong power generation''] else strs);
          strs = (if accuracy_score scores > 85 then strs @ [''Consistent accuracy''] else strs);
          (areas, recs, drills) =
            (if form_score scores < 80
             then (areas @ [''Form consistency''],
                   recs @ [''Focus on maintaining proper posture throughout swing''],
                   drills @ [''Mirror work for posture awareness''])
             else (areas, recs, drills));
          (areas, recs, drills) =
            (if tempo_score scores < 80
             then (areas @ [''Tempo control''],
                   recs @ [''Work on 3:1 backswing to downswing ratio''],
                   drills @ [''Metronome practice with slow motion swings''])
             else (areas, recs, drills));
          (areas, recs, drills) =
            (if power_score scores < 80
             then (areas @ [''Power generation''],
                   recs @ [''Improve hip rotation and weight transfer''],
                   drills @ [''Medicine ball throws for power development''])
             else (areas, recs, drills));
          (areas, recs, drills) =
            (if accuracy_score scores < 80
             then (areas @ [''Accuracy and consistency''],
                   recs @ [''Focus on shoulder alignment and target awareness''],
                   drills @ [''Alignment stick drills''])
             else (areas, recs, drills));
          lowest_score = min (form_score scores) (min (tempo_score scores)
                           (min (power_score scores) (accuracy_score scores)));
          priority = (if lowest_score < 70 then ''high''
                      else if lowest_score < 80 then ''medium''
                      else ''low'')
      in \<lparr> strengths = (if strs \<noteq> [] then strs else [''Good overall technique'']),
           areas_for_improvement = areas,
           specific_recommendations = recs,
           practice_drills = drills,
           priority_level = priority \<rparr>)"

section \<open>Confidence: \<^verbatim>\<open>_calculate_confidence\<close>\<close>

definition calculate_confidence :: "pose_data \<Rightarrow> real" where
  "calculate_confidence pd =
     (if confidence_scores pd = [] then 0
      else (let avg_confidence = sum_list (confidence_scores pd) / real (length (confidence_scores pd));
                confidence_score = avg_confidence * 100
            in max 0 (min 100 confidence_score)))"

section \<open>The pipeline: \<^verbatim>\<open>analyze_swing\<close> of \<^verbatim>\<open>services/golf_analyzer.py\<close>\<close>

text \<open>
  The keyword arguments of the \<^verbatim>\<open>SwingAnalysisData\<close> constructor (the constant model
  version and analysis parameters are left out).
\<close>

record swing_analysis_data =
  sad_video_filename :: string
  sad_analysis_timestamp :: real
  sad_processing_time :: real
  sad_scores :: swing_scores
  sad_metrics :: swing_metrics
  sad_recommendations :: swing_recommendations
  sad_confidence_score :: real
  sad_frame_count :: int
  sad_video_duration :: real
  sad_pose_landmarks :: "landmark list list"

text \<open>
  \<^verbatim>\<open>analyze_swing\<close>. The three readings of \<^verbatim>\<open>time.time()\<close> are inputs (\<open>t_start\<close>,
  \<open>t_done\<close>, \<open>t_stamp\<close>), and so is pydantic's validation of the constructor arguments
  (\<open>validate\<close>), which is library code. The \<^verbatim>\<open>except\<close> clause logs and re-raises, so an
  exception of any stage is the result.
\<close>

definition analyze_swing ::
  "'m analyzer \<Rightarrow> (swing_analysis_data \<Rightarrow> py_exception + swing_analysis_data)
    \<Rightarrow> real \<Rightarrow> real \<Rightarrow> real \<Rightarrow> video \<Rightarrow> py_exception + swing_analysis_data" where
  "analyze_swing a validate t_start t_done t_stamp v =
     (let info = get_video_info v in
      case extract_pose_data v of
        Inl e \<Rightarrow> Inl e
      | Inr pd \<Rightarrow>
          (case analyze_swing_phases pd of
             Inl e \<Rightarrow> Inl e
           | Inr phases \<Rightarrow>
               (case calculate_swing_metrics pd phases of
                  Inl e \<Rightarrow> Inl e
                | Inr metrics \<Rightarrow>
                    (let scores = generate_scores a pd metrics;
                         recommendations = generate_recommendations scores metrics;
                         processing_time = t_done - t_start
                     in validate
                          \<lparr> sad_video_filename = vid_filename v,
                            sad_analysis_timestamp = t_stamp,
                            sad_processing_time = processing_time,
                            sad_scores = scores,
                            sad_metrics = metrics,
                            sad_recommendations = recommendations,
                            sad_confidence_score = calculate_confidence pd,
                            sad_frame_count = vi_frame_count info,
                            sad_video_duration = vi_duration info,
                            sad_pose_landmarks = landmarks pd \<rparr>))))"

section \<open>The second analyzer: \<^verbatim>\<open>app/services/golf_analyzer.py\<close> and \<^verbatim>\<open>app/main.py\<close>\<close>

text \<open>\<^verbatim>\<open>str(e)\<close> of an exception: its message (for an HTTPException, its detail).\<close>

fun exc_str :: "py_exception \<Rightarrow> string" where
  "exc_str (ValueError m) = m"
| "exc_str (IndexError m) = m"
| "exc_str (ZeroDivisionError m) = m"
| "exc_str (RuntimeError m) = m"
| "exc_str (AttributeError m) = m"
| "exc_str (UnboundLocalError m) = m"
| "exc_str (CollaboratorError m) = m"
| "exc_str (HTTPException code m) = m"

text \<open>
  \<^verbatim>\<open>_calculate_overall_score\<close>, on the scores of the optional tempo and form analyses
  (a pydantic object is always truthy, so \<^verbatim>\<open>if tempo_analysis\<close> tests for \<open>None\<close>).
\<close>

definition calculate_overall_score :: "real option \<Rightarrow> real option \<Rightarrow> real" where
  "calculate_overall_score tempo_analysis form_analysis =
     (case (tempo_analysis, form_analysis) of
        (Some t, Some f) \<Rightarrow> (t * (4 / 10)) + (f * (6 / 10))
      | (Some t, None) \<Rightarrow> t
      | (None, Some f) \<Rightarrow> f
      | (None, None) \<Rightarrow> 0)"

text \<open>\<^verbatim>\<open>_calculate_confidence\<close> of the second analyzer.\<close>

definition app_calculate_confidence :: "real option \<Rightarrow> real option \<Rightarrow> real" where
  "app_calculate_confidence tempo_analysis form_analysis =
     (let cs = [];
          cs = (case tempo_analysis of
                  Some t \<Rightarrow> cs @ [min 95 (70 + (t * (25 / 100)))]
                | None \<Rightarrow> cs);
          cs = (case form_analysis of
                  Some f \<Rightarrow> cs @ [min 95 (70 + (f * (25 / 100)))]
                | None \<Rightarrow> cs)
      in if cs = [] then 50 else sum_list cs / real (length cs))"

datatype analysis_type = Full | Tempo | Form

record analysis_request =
  req_video_url :: string
  req_user_id :: string
  req_analysis_type :: analysis_type

text \<open>
  The collaborators of the second analyzer (video processor, pose estimator, tempo and form
  analyzers) are not part of the sources at hand. For one request, \<open>collaborators\<close> gives
  what each of their calls does: it raises, or it returns a value, of which the code uses
  the truth value (video path, pose data) or the score (tempo and form analysis).
\<close>

record collaborators =
  co_download_video :: "py_exception + string option"
  co_get_video_info :: "py_exception + unit"
  co_generate_thumbnail :: "py_exception + string option"
  co_estimate_pose :: "py_exception + bool"
  co_analyze_tempo :: "py_exception + real"
  co_analyze_form :: "py_exception + real"

text \<open>
  The fields of \<^verbatim>\<open>AnalysisResponse\<close> that the claims read (key insights, recommendations
  and the thumbnail are left out; the tempo and form analyses are kept as their scores).
\<close>

record analysis_response =
  ar_success :: bool
  ar_tempo :: real
  ar_form :: real
  ar_overall :: real
  ar_confidence :: real
  ar_error :: "string option"

definition error_response :: "py_exception \<Rightarrow> analysis_response" where
  "error_response e =
     \<lparr> ar_success = False, ar_tempo = 0, ar_form = 0, ar_overall = 0, ar_confidence = 0,
       ar_error = Some (exc_str e) \<rparr>"

definition unbound_local :: "string \<Rightarrow> py_exception" where
  "unbound_local name =
     UnboundLocalError (''cannot access local variable '' @ [CHR 0x27] @ name @ [CHR 0x27]
        @ '' where it is not associated with a value'')"

text \<open>
  The success path after pose estimation: the optional analyses, the overall score, the
  confidence and the construction of the response, whose fields \<^verbatim>\<open>overall\<close> and
  \<^verbatim>\<open>confidence\<close> are declared with \<^verbatim>\<open>ge=0, le=100\<close>.
\<close>

definition build_response :: "analysis_type \<Rightarrow> collaborators \<Rightarrow> py_exception + analysis_response" where
  "build_response ty co =
     (case (if ty = Full \<or> ty = Tempo then map_sum id Some (co_analyze_tempo co) else Inr None) of
        Inl e \<Rightarrow> Inl e
      | Inr tempo_analysis \<Rightarrow>
          (case (if ty = Full \<or> ty = Form then map_sum id Some (co_analyze_form co) else Inr None) of
             Inl e \<Rightarrow> Inl e
           | Inr form_analysis \<Rightarrow>
               (let overall = calculate_overall_score tempo_analysis form_analysis;
                    confidence = app_calculate_confidence tempo_analysis form_analysis
                in if 0 \<le> overall \<and> overall \<le> 100 \<and> 0 \<le> confidence \<and> confidence \<le> 100
                   then Inr \<lparr> ar_success = True,
                              ar_tempo = (case tempo_analysis of Some t \<Rightarrow> t | None \<Rightarrow> 0),
                              ar_form = (case form_analysis of Some f \<Rightarrow> f | None \<Rightarrow> 0),
                              ar_overall = overall,
                              ar_confidence = confidence,
                              ar_error = None \<rparr>
                   else Inl (ValueError ''validation error for AnalysisResponse''))))"

text \<open>
  \<^verbatim>\<open>analyze_swing\<close> of the second analyzer. An exception inside the \<^verbatim>\<open>try\<close> reaches the
  handler, which names \<^verbatim>\<open>video_path\<close> and \<^verbatim>\<open>thumbnail_path\<close>: when one of them is not yet
  assigned the handler itself raises, otherwise it returns the error response.
\<close>

definition app_analyze_swing :: "bool \<Rightarrow> analysis_request \<Rightarrow> collaborators
    \<Rightarrow> py_exception + analysis_response" where
  "app_analyze_swing initialized req co =
     (if \<not> initialized then Inl (RuntimeError ''Analyzer not initialized'')
      else case co_download_video co of
        Inl e \<Rightarrow> Inl (unbound_local ''video_path'')
      | Inr video_path \<Rightarrow>
          if video_path = None \<or> video_path = Some [] then Inl (unbound_local ''thumbnail_path'')
          else (case co_get_video_info co of
            Inl e \<Rightarrow> Inl (unbound_local ''thumbnail_path'')
          | Inr info \<Rightarrow>
              (case co_generate_thumbnail co of
                 Inl e \<Rightarrow> Inl (unbound_local ''thumbnail_path'')
               | Inr thumbnail_path \<Rightarrow>
                   (case co_estimate_pose co of
                      Inl e \<Rightarrow> Inr (error_response e)
                    | Inr pose_data \<Rightarrow>
                        if \<not> pose_data
                        then Inr (error_response (ValueError ''Failed to estimate pose from video''))
                        else (case build_response (req_analysis_type req) co of
                                Inl e \<Rightarrow> Inr (error_response e)
                              | Inr response \<Rightarrow> Inr response)))))"

text \<open>
  An entry of the \<^verbatim>\<open>results\<close> list of \<^verbatim>\<open>analyze_batch\<close>: the \<^verbatim>\<open>AnalysisResponse\<close>
  object that \<^verbatim>\<open>analyze_swing\<close> returned, or the dict
  \<^verbatim>\<open>{"success": False, "error": str(e), "userId": ...}\<close> of the per-item handler.
\<close>

datatype batch_result =
    ResponseObject analysis_response
  | ErrorDict bool string string

definition no_get_message :: string where
  "no_get_message = [CHR 0x27] @ ''AnalysisResponse'' @ [CHR 0x27]
     @ '' object has no attribute '' @ [CHR 0x27] @ ''get'' @ [CHR 0x27]"

text \<open>
  \<^verbatim>\<open>r.get("success", False)\<close>: a dict answers; \<^verbatim>\<open>AnalysisResponse\<close> declares no \<^verbatim>\<open>get\<close>
  and pydantic's \<^verbatim>\<open>BaseModel\<close> has none, so the attribute lookup raises.
\<close>

fun get_success :: "batch_result \<Rightarrow> py_exception + bool" where
  "get_success (ResponseObject r) = Inl (AttributeError no_get_message)"
| "get_success (ErrorDict ok err uid) = Inr ok"

text \<open>\<^verbatim>\<open>len([r for r in results if r.get("success", False)])\<close>, left to right.\<close>

fun count_successful :: "batch_result list \<Rightarrow> py_exception + nat" where
  "count_successful [] = Inr 0"
| "count_successful (r # rs) =
     (case get_success r of
        Inl e \<Rightarrow> Inl e
      | Inr ok \<Rightarrow>
          (case count_successful rs of
             Inl e \<Rightarrow> Inl e
           | Inr k \<Rightarrow> Inr (if ok then k + 1 else k)))"

record batch_response =
  br_success :: bool
  br_results :: "batch_result list"
  br_total_processed :: nat
  br_successful :: nat

text \<open>The body of the \<^verbatim>\<open>for request in requests\<close> loop: one entry per request.\<close>

definition batch_item :: "bool \<Rightarrow> analysis_request \<times> collaborators \<Rightarrow> batch_result" where
  "batch_item initialized item =
     (case app_analyze_swing initialized (fst item) (snd item) of
        Inr result \<Rightarrow> ResponseObject result
      | Inl e \<Rightarrow> ErrorDict False (exc_str e) (req_user_id (fst item)))"

text \<open>
  \<^verbatim>\<open>analyze_batch\<close>. \<open>api_key_ok\<close> is the answer of \<^verbatim>\<open>verify_api_key\<close>; a request comes
  with what its collaborators do. The outer handler turns every exception of the body,
  the 401 included, into an HTTPException with status 500.
\<close>

definition analyze_batch :: "bool \<Rightarrow> bool \<Rightarrow> (analysis_request \<times> collaborators) list
    \<Rightarrow> py_exception + batch_response" where
  "analyze_batch api_key_ok initialized requests =
     (case (if \<not> api_key_ok then Inl (HTTPException 401 ''Invalid API key'')
            else (let results = map (batch_item initialized) requests in
                  case count_successful results of
                    Inl e \<Rightarrow> Inl e
                  | Inr k \<Rightarrow>
                      Inr \<lparr> br_success = True, br_results = results,
                            br_total_processed = length requests, br_successful = k \<rparr>)) of
        Inl e \<Rightarrow> Inl (HTTPException 500 (''Batch analysis failed: '' @ exc_str e))
      | Inr r \<Rightarrow> Inr r)"

section \<open>The specification's wording, for comparison\<close>

text \<open>
  Modelled from the spec's words (section 4.4), to be compared with \<open>calculate_confidence\<close>:
  the mean visibility over all landmarks of all frames, times 100, clamped to \<open>[0, 100]\<close>,
  and 0 when there is no visibility data.
\<close>

definition spec_confidence :: "pose_data \<Rightarrow> real" where
  "spec_confidence pd =
     (let vs = concat (map (map lm_visibility) (landmarks pd))
      in if vs = [] then 0 else max 0 (min 100 (sum_list vs / real (length vs) * 100)))"

text \<open>
  Modelled from the spec's words (section 4.1), to be compared with \<open>analyze_swing_phases\<close>:
  the displacement speed of the wrist landmark between consecutive frames (its square, which
  has the same maxima), the middle 60 percent of the sequence, the earliest frame of
  maximum speed there, and a signal whose speeds differ by no more than a small epsilon.
  The wrist is MediaPipe's landmark 16.
\<close>

definition wrist :: nat where
  "wrist = 16"

definition sq_dist :: "landmark \<Rightarrow> landmark \<Rightarrow> real" where
  "sq_dist p q = (lm_x q - lm_x p)\<^sup>2 + (lm_y q - lm_y p)\<^sup>2 + (lm_z q - lm_z p)\<^sup>2"

definition spec_wrist_speed_sq :: "pose_data \<Rightarrow> nat \<Rightarrow> real" where
  "spec_wrist_speed_sq pd i =
     (if i = 0 \<or> length (landmarks pd) \<le> i then 0
      else sq_dist (landmarks pd ! (i - 1) ! wrist) (landmarks pd ! i ! wrist)
             / (frame_timestamps pd ! i - frame_timestamps pd ! (i - 1))\<^sup>2)"

definition spec_middle :: "nat \<Rightarrow> nat list" where
  "spec_middle n = [2 * n div 10 ..< 8 * n div 10]"

fun argmax_first :: "(nat \<Rightarrow> real) \<Rightarrow> nat list \<Rightarrow> nat option" where
  "argmax_first f [] = None"
| "argmax_first f (i # js) = Some (fold (\<lambda>j best. if f j > f best then j else best) js i)"

definition spec_impact_candidate :: "pose_data \<Rightarrow> nat option" where
  "spec_impact_candidate pd =
     argmax_first (spec_wrist_speed_sq pd) (spec_middle (length (landmarks pd)))"

definition spec_degenerate :: "pose_data \<Rightarrow> bool" where
  "spec_degenerate pd =
     (let vs = map (spec_wrist_speed_sq pd) (spec_middle (length (landmarks pd)))
      in list_all (\<lambda>v. list_all (\<lambda>w. \<bar>v - w\<bar> \<le> 1 / 1000000) vs) vs)"

text \<open>
  Modelled from the spec's words (section 4.2), to be compared with \<open>calculate_tempo_ratio\<close>:
  the raw tempo ratio, the duration of the backswing phase divided by the duration of the
  downswing phase, before clamping. The duration of a phase is read from the frame
  timestamps in two ways: from its first frame to its last frame (\<open>phase_duration\<close>), and
  from its first frame to the first frame of the next phase (\<open>phase_span\<close>).
\<close>

definition phase_duration :: "real list \<Rightarrow> py_range \<Rightarrow> real" where
  "phase_duration ts r = ts ! (stop r - 1) - ts ! start r"

definition phase_span :: "real list \<Rightarrow> py_range \<Rightarrow> real" where
  "phase_span ts r = ts ! stop r - ts ! start r"

definition spec_raw_tempo_ratio :: "real list \<Rightarrow> swing_phases \<Rightarrow> real" where
  "spec_raw_tempo_ratio ts phases =
     phase_duration ts (backswing phases) / phase_duration ts (downswing phases)"

definition spec_raw_tempo_ratio_span :: "real list \<Rightarrow> swing_phases \<Rightarrow> real" where
  "spec_raw_tempo_ratio_span ts phases =
     phase_span ts (backswing phases) / phase_span ts (downswing phases)"

text \<open>
  The rule table of the spec (section 4.3) and the mapping of section 4.5, by category.
\<close>

datatype category = FormCat | TempoCat | PowerCat | AccuracyCat

definition categories :: "category list" where
  "categories = [FormCat, TempoCat, PowerCat, AccuracyCat]"

fun category_score :: "swing_scores \<Rightarrow> category \<Rightarrow> real" where
  "category_score s FormCat = form_score s"
| "category_score s TempoCat = tempo_score s"
| "category_score s PowerCat = power_score s"
| "category_score s AccuracyCat = accuracy_score s"

fun strength_text :: "category \<Rightarrow> string" where
  "strength_text FormCat = ''Excellent form fundamentals''"
| "strength_text TempoCat = ''Good tempo control''"
| "strength_text PowerCat = ''Strong power generation''"
| "strength_text AccuracyCat = ''Consistent accuracy''"

fun area_text :: "category \<Rightarrow> string" where
  "area_text FormCat = ''Form consistency''"
| "area_text TempoCat = ''Tempo control''"
| "area_text PowerCat = ''Power generation''"
| "area_text AccuracyCat = ''Accuracy and consistency''"

fun recommendation_text :: "category \<Rightarrow> string" where
  "recommendation_text FormCat = ''Focus on maintaining proper posture throughout swing''"
| "recommendation_text TempoCat = ''Work on 3:1 backswing to downswing ratio''"
| "recommendation_text PowerCat = ''Improve hip rotation and weight transfer''"
| "recommendation_text AccuracyCat = ''Focus on shoulder alignment and target awareness''"

fun drill_text :: "category \<Rightarrow> string" where
  "drill_text FormCat = ''Mirror work for posture awareness''"
| "drill_text TempoCat = ''Metronome practice with slow motion swings''"
| "drill_text PowerCat = ''Medicine ball throws for power development''"
| "drill_text AccuracyCat = ''Alignment stick drills''"

text \<open>The bonus of a rule: added when the rule's condition holds.\<close>

definition bonus :: "bool \<Rightarrow> real \<Rightarrow> real" where
  "bonus cond b = (if cond then b else 0)"

section \<open>Concrete inputs\<close>

text \<open>A frame of 33 landmarks, all at the same point with the same visibility.\<close>

definition uniform_frame :: "real \<Rightarrow> real \<Rightarrow> landmark list" where
  "uniform_frame p v = replicate 33 \<lparr> lm_x = p, lm_y = p, lm_z = p, lm_visibility = v \<rparr>"

text \<open>Pose data of \<open>n\<close> identical frames, recorded at 30 frames per second.\<close>

definition still_pose_data :: "nat \<Rightarrow> real \<Rightarrow> pose_data" where
  "still_pose_data n v =
     \<lparr> landmarks = replicate n (uniform_frame 0.5 v),
       frame_timestamps = map (\<lambda>i. real i / 30) [0..<n],
       confidence_scores = replicate n v \<rparr>"

definition phases_of_11 :: swing_phases where
  "phases_of_11 =
     \<lparr> address = \<lparr> start = 0, stop = 2 \<rparr>,
       backswing = \<lparr> start = 2, stop = 5 \<rparr>,
       downswing = \<lparr> start = 5, stop = 8 \<rparr>,
       impact = \<lparr> start = 8, stop = 8 \<rparr>,
       follow_through = \<lparr> start = 8, stop = 11 \<rparr> \<rparr>"

definition phases_of_10 :: swing_phases where
  "phases_of_10 =
     \<lparr> address = \<lparr> start = 0, stop = 2 \<rparr>,
       backswing = \<lparr> start = 2, stop = 5 \<rparr>,
       downswing = \<lparr> start = 5, stop = 7 \<rparr>,
       impact = \<lparr> start = 7, stop = 8 \<rparr>,
       follow_through = \<lparr> start = 8, stop = 10 \<rparr> \<rparr>"

text \<open>
  Ten frames at 30 frames per second in which every landmark jumps from 0 to 1 between
  frames 3 and 4 and is still otherwise: the only movement is at frame 4.
\<close>

definition jump_pose_data :: pose_data where
  "jump_pose_data =
     \<lparr> landmarks = map (\<lambda>p. uniform_frame p 1) [0, 0, 0, 0, 1, 1, 1, 1, 1, 1],
       frame_timestamps = map (\<lambda>i. real i / 30) [0, 1, 2, 3, 4, 5, 6, 7, 8, 9],
       confidence_scores = [1, 1, 1, 1, 1, 1, 1, 1, 1, 1] \<rparr>"

text \<open>
  Ten still frames of a 30 frames-per-second video, detected at the video frames 0, 1, 2,
  5, 8, 14, 15, 16, 17 and 18: the backswing (frames 2 to 4 of the ten) lasts six times as
  long as the downswing (frames 5 and 6).
\<close>

definition slow_backswing_pose_data :: pose_data where
  "slow_backswing_pose_data =
     \<lparr> landmarks = replicate 10 (uniform_frame (1 / 2) 1),
       frame_timestamps = map (\<lambda>k. real k / 30) [0, 1, 2, 5, 8, 14, 15, 16, 17, 18],
       confidence_scores = replicate 10 1 \<rparr>"

text \<open>A frame whose landmark 0 is fully visible and whose other 32 landmarks are not.\<close>

definition nose_only_frame :: "landmark list" where
  "nose_only_frame =
     \<lparr> lm_x = 1 / 2, lm_y = 1 / 2, lm_z = 0, lm_visibility = 1 \<rparr>
       # replicate 32 \<lparr> lm_x = 1 / 2, lm_y = 1 / 2, lm_z = 0, lm_visibility = 0 \<rparr>"

definition nose_only_video :: video where
  "nose_only_video =
     \<lparr> vid_filename = ''swing.mp4'', vid_frame_count = 1, vid_fps = 30,
       vid_frames = [Some nose_only_frame] \<rparr>"

definition nose_only_pose_data :: pose_data where
  "nose_only_pose_data =
     \<lparr> landmarks = [nose_only_frame], frame_timestamps = [0], confidence_scores = [1] \<rparr>"

text \<open>A video of \<open>n\<close> frames, a pose detected in each, every landmark with visibility \<open>v\<close>.\<close>

definition uniform_video :: "nat \<Rightarrow> real \<Rightarrow> video" where
  "uniform_video n v =
     \<lparr> vid_filename = ''swing.mp4'', vid_frame_count = int n, vid_fps = 30,
       vid_frames = replicate n (Some (uniform_frame (1 / 2) v)) \<rparr>"

definition no_models :: "unit analyzer" where
  "no_models = \<lparr> form_model = None, tempo_model = None, power_model = None, accuracy_model = None \<rparr>"

definition sample_metrics :: swing_metrics where
  "sample_metrics =
     \<lparr> backswing_angle = 45, downswing_speed = 15, follow_through_angle = 60,
       hip_rotation = 75, shoulder_alignment = 90, weight_transfer = 85, tempo_ratio = 4 \<rparr>"

definition sample_scores :: swing_scores where
  "sample_scores =
     \<lparr> form_score = 90, tempo_score = 75, power_score = 65, accuracy_score = 85,
       overall_score = 315 / 4 \<rparr>"

text \<open>
  A batch of three requests: for the first and the third every collaborator succeeds (tempo
  score 80, form score 90); for the second the pose estimator returns no pose data.
\<close>

definition good_collaborators :: collaborators where
  "good_collaborators =
     \<lparr> co_download_video = Inr (Some ''/tmp/video.mp4''),
       co_get_video_info = Inr (),
       co_generate_thumbnail = Inr (Some ''/tmp/thumb.jpg''),
       co_estimate_pose = Inr True,
       co_analyze_tempo = Inr 80,
       co_analyze_form = Inr 90 \<rparr>"

definition short_collaborators :: collaborators where
  "short_collaborators =
     \<lparr> co_download_video = Inr (Some ''/tmp/video.mp4''),
       co_get_video_info = Inr (),
       co_generate_thumbnail = Inr (Some ''/tmp/thumb.jpg''),
       co_estimate_pose = Inr False,
       co_analyze_tempo = Inr 0,
       co_analyze_form = Inr 0 \<rparr>"

definition good_response :: analysis_response where
  "good_response =
     \<lparr> ar_success = True, ar_tempo = 80, ar_form = 90, ar_overall = 86,
       ar_confidence = 365 / 4, ar_error = None \<rparr>"

definition request_of :: "string \<Rightarrow> analysis_request" where
  "request_of uid =
     \<lparr> req_video_url = ''https://example.org/'' @ uid @ ''.mp4'', req_user_id = uid,
       req_analysis_type = Full \<rparr>"

definition sample_batch :: "(analysis_request \<times> collaborators) list" where
  "sample_batch =
     [(request_of ''u1'', good_collaborators),
      (request_of ''u2'', short_collaborators),
      (request_of ''u3'', good_collaborators)]"

definition phases_of_40 :: swing_phases where
  "phases_of_40 =
     \<lparr> address = \<lparr> start = 0, stop = 10 \<rparr>,
       backswing = \<lparr> start = 10, stop = 20 \<rparr>,
       downswing = \<lparr> start = 20, stop = 30 \<rparr>,
       impact = \<lparr> start = 30, stop = 32 \<rparr>,
       follow_through = \<lparr> start = 32, stop = 40 \<rparr> \<rparr>"

text \<open>The placeholder constants of the metric helpers.\<close>

definition constant_metrics :: swing_metrics where
  "constant_metrics =
     \<lparr> backswing_angle = 45, downswing_speed = 15, follow_through_angle = 60,
       hip_rotation = 75, shoulder_alignment = 68, weight_transfer = 75, tempo_ratio = 28 / 10 \<rparr>"

text \<open>The dict that \<^verbatim>\<open>_analyze_swing_phases\<close> builds for \<open>n\<close> frames.\<close>

definition split_phases :: "nat \<Rightarrow> swing_phases" where
  "split_phases n =
     \<lparr> address = \<lparr> start = 0, stop = n div 4 \<rparr>,
       backswing = \<lparr> start = n div 4, stop = n div 2 \<rparr>,
       downswing = \<lparr> start = n div 2, stop = 3 * n div 4 \<rparr>,
       impact = \<lparr> start = 3 * n div 4, stop = 4 * n div 5 \<rparr>,
       follow_through = \<lparr> start = 4 * n div 5, stop = n \<rparr> \<rparr>"

section \<open>Properties of the phase segmentation\<close>

lemma phase_bounds_small:
  fixes n :: nat
  assumes "10 \<le> n"
  shows "0 < n div 4" and "n div 4 < n div 2" and "n div 2 < 3 * n div 4"
    and "3 * n div 4 \<le> 4 * n div 5" and "4 * n div 5 < n"
  using assms by linarith+

lemma impact_nonempty_large:
  fixes n :: nat
  assumes "17 \<le> n"
  shows "3 * n div 4 < 4 * n div 5"
  using assms by linarith

lemma impact_nonempty_small:
  fixes n :: nat
  assumes "10 \<le> n" and "n < 17"
  shows "3 * n div 4 < 4 * n div 5 \<longleftrightarrow> n \<noteq> 11 \<and> n \<noteq> 12 \<and> n \<noteq> 16"
proof -
  from assms have "n = 10 \<or> n = 11 \<or> n = 12 \<or> n = 13 \<or> n = 14 \<or> n = 15 \<or> n = 16"
    by linarith
  then show ?thesis by (elim disjE) simp_all
qed

lemma impact_nonempty_iff:
  fixes n :: nat
  assumes "10 \<le> n"
  shows "3 * n div 4 < 4 * n div 5 \<longleftrightarrow> n \<noteq> 11 \<and> n \<noteq> 12 \<and> n \<noteq> 16"
proof (cases "n < 17")
  case True
  with assms show ?thesis by (rule impact_nonempty_small)
next
  case False
  then have "17 \<le> n" by simp
  then have "3 * n div 4 < 4 * n div 5" by (rule impact_nonempty_large)
  moreover from False have "n \<noteq> 11 \<and> n \<noteq> 12 \<and> n \<noteq> 16" by simp
  ultimately show ?thesis by simp
qed

lemma five_ranges_cover:
  fixes a b c d n :: nat
  assumes "a \<le> b" and "b \<le> c" and "c \<le> d" and "d \<le> n"
  shows "{0 ..< a} \<union> {a ..< b} \<union> {b ..< c} \<union> {c ..< d} \<union> {d ..< n} = {0 ..< n}"
  using assms by auto

lemma ranges_disjoint:
  fixes a b c d :: nat
  assumes "b \<le> c"
  shows "{a ..< b} \<inter> {c ..< d} = {}"
  using assms by auto

lemma range_len_pos: "0 < range_len r \<longleftrightarrow> start r < stop r"
  by (auto simp add: range_len_def)

lemma analyze_swing_phases_ok:
  assumes "10 \<le> length (landmarks pd)"
  shows "analyze_swing_phases pd =
     Inr \<lparr> address = \<lparr> start = 0, stop = length (landmarks pd) div 4 \<rparr>,
           backswing = \<lparr> start = length (landmarks pd) div 4, stop = length (landmarks pd) div 2 \<rparr>,
           downswing = \<lparr> start = length (landmarks pd) div 2, stop = 3 * length (landmarks pd) div 4 \<rparr>,
           impact = \<lparr> start = 3 * length (landmarks pd) div 4, stop = 4 * length (landmarks pd) div 5 \<rparr>,
           follow_through = \<lparr> start = 4 * length (landmarks pd) div 5, stop = length (landmarks pd) \<rparr> \<rparr>"
  using assms by (simp add: analyze_swing_phases_def Let_def)

lemma still_pose_data_length: "length (landmarks (still_pose_data n v)) = n"
  by (simp add: still_pose_data_def)

text \<open>
  Claim C1, as the code has it. For every pose data with \<open>N \<ge> 10\<close> frames the
  segmentation succeeds; its five ranges are contiguous and ordered (each range starts where
  the previous one stops, from 0 to \<open>N\<close>), pairwise disjoint and cover exactly \<open>{0..<N}\<close>;
  address, backswing, downswing and follow_through are non-empty, and the impact range is
  non-empty exactly when \<open>N\<close> is none of 11, 12 and 16.
\<close>

theorem phases_partition:
  assumes "10 \<le> length (landmarks pd)"
  shows "\<exists>ph. analyze_swing_phases pd = Inr ph
    \<and> start (address ph) = 0
    \<and> stop (address ph) = start (backswing ph)
    \<and> stop (backswing ph) = start (downswing ph)
    \<and> stop (downswing ph) = start (impact ph)
    \<and> stop (impact ph) = start (follow_through ph)
    \<and> stop (follow_through ph) = length (landmarks pd)
    \<and> start (impact ph) \<le> stop (impact ph)
    \<and> range_set (address ph) \<union> range_set (backswing ph) \<union> range_set (downswing ph)
        \<union> range_set (impact ph) \<union> range_set (follow_through ph) = {0 ..< length (landmarks pd)}
    \<and> range_set (address ph) \<inter> range_set (backswing ph) = {}
    \<and> range_set (address ph) \<inter> range_set (downswing ph) = {}
    \<and> range_set (address ph) \<inter> range_set (impact ph) = {}
    \<and> range_set (address ph) \<inter> range_set (follow_through ph) = {}
    \<and> range_set (backswing ph) \<inter> range_set (downswing ph) = {}
    \<and> range_set (backswing ph) \<inter> range_set (impact ph) = {}
    \<and> range_set (backswing ph) \<inter> range_set (follow_through ph) = {}
    \<and> range_set (downswing ph) \<inter> range_set (impact ph) = {}
    \<and> range_set (downswing ph) \<inter> range_set (follow_through ph) = {}
    \<and> range_set (impact ph) \<inter> range_set (follow_through ph) = {}
    \<and> 0 < range_len (address ph)
    \<and> 0 < range_len (backswing ph)
    \<and> 0 < range_len (downswing ph)
    \<and> 0 < range_len (follow_through ph)
    \<and> (0 < range_len (impact ph)) =
        (length (landmarks pd) \<noteq> 11 \<and> length (landmarks pd) \<noteq> 12 \<and> length (landmarks pd) \<noteq> 16)"
proof -
  define n where "n = length (landmarks pd)"
  define a where "a = n div 4"
  define b where "b = n div 2"
  define c where "c = 3 * n div 4"
  define d where "d = 4 * n div 5"
  define ph where "ph =
     \<lparr> address = \<lparr> start = 0, stop = a \<rparr>,
       backswing = \<lparr> start = a, stop = b \<rparr>,
       downswing = \<lparr> start = b, stop = c \<rparr>,
       impact = \<lparr> start = c, stop = d \<rparr>,
       follow_through = \<lparr> start = d, stop = n \<rparr> \<rparr>"
  have n10: "10 \<le> n" using assms by (simp add: n_def)
  have bounds: "0 < a" "a < b" "b < c" "c \<le> d" "d < n"
    unfolding a_def b_def c_def d_def by (rule phase_bounds_small [OF n10])+
  have res: "analyze_swing_phases pd = Inr ph"
    unfolding n_def a_def b_def c_def d_def ph_def using assms by (rule analyze_swing_phases_ok)
  have sel: "address ph = \<lparr> start = 0, stop = a \<rparr>" "backswing ph = \<lparr> start = a, stop = b \<rparr>"
    "downswing ph = \<lparr> start = b, stop = c \<rparr>" "impact ph = \<lparr> start = c, stop = d \<rparr>"
    "follow_through ph = \<lparr> start = d, stop = n \<rparr>"
    by (simp_all add: ph_def)
  have contiguous: "start (address ph) = 0
    \<and> stop (address ph) = start (backswing ph)
    \<and> stop (backswing ph) = start (downswing ph)
    \<and> stop (downswing ph) = start (impact ph)
    \<and> stop (impact ph) = start (follow_through ph)
    \<and> stop (follow_through ph) = n
    \<and> start (impact ph) \<le> stop (impact ph)"
    using bounds by (simp add: sel)
  have cover: "range_set (address ph) \<union> range_set (backswing ph) \<union> range_set (downswing ph)
        \<union> range_set (impact ph) \<union> range_set (follow_through ph) = {0 ..< n}"
    unfolding sel range_set_def py_range.simps
    using bounds by (intro five_ranges_cover) simp_all
  have disjoint: "range_set (address ph) \<inter> range_set (backswing ph) = {}
    \<and> range_set (address ph) \<inter> range_set (downswing ph) = {}
    \<and> range_set (address ph) \<inter> range_set (impact ph) = {}
    \<and> range_set (address ph) \<inter> range_set (follow_through ph) = {}
    \<and> range_set (backswing ph) \<inter> range_set (downswing ph) = {}
    \<and> range_set (backswing ph) \<inter> range_set (impact ph) = {}
    \<and> range_set (backswing ph) \<inter> range_set (follow_through ph) = {}
    \<and> range_set (downswing ph) \<inter> range_set (impact ph) = {}
    \<and> range_set (downswing ph) \<inter> range_set (follow_through ph) = {}
    \<and> range_set (impact ph) \<inter> range_set (follow_through ph) = {}"
    unfolding sel range_set_def py_range.simps
    using bounds by (intro conjI ranges_disjoint) simp_all
  have nonempty: "0 < range_len (address ph)
    \<and> 0 < range_len (backswing ph)
    \<and> 0 < range_len (downswing ph)
    \<and> 0 < range_len (follow_through ph)"
    using bounds by (simp add: sel range_len_pos)
  have "(0 < range_len (impact ph)) = (3 * n div 4 < 4 * n div 5)"
    by (simp add: sel range_len_pos c_def d_def)
  also have "\<dots> = (n \<noteq> 11 \<and> n \<noteq> 12 \<and> n \<noteq> 16)"
    using n10 by (rule impact_nonempty_iff)
  finally have impact_iff: "(0 < range_len (impact ph)) = (n \<noteq> 11 \<and> n \<noteq> 12 \<and> n \<noteq> 16)" .
  have "analyze_swing_phases pd = Inr ph \<and> (start (address ph) = 0
    \<and> stop (address ph) = start (backswing ph)
    \<and> stop (backswing ph) = start (downswing ph)
    \<and> stop (downswing ph) = start (impact ph)
    \<and> stop (impact ph) = start (follow_through ph)
    \<and> stop (follow_through ph) = n
    \<and> start (impact ph) \<le> stop (impact ph))
    \<and> range_set (address ph) \<union> range_set (backswing ph) \<union> range_set (downswing ph)
        \<union> range_set (impact ph) \<union> range_set (follow_through ph) = {0 ..< n}
    \<and> (range_set (address ph) \<inter> range_set (backswing ph) = {}
    \<and> range_set (address ph) \<inter> range_set (downswing ph) = {}
    \<and> range_set (address ph) \<inter> range_set (impact ph) = {}
    \<and> range_set (address ph) \<inter> range_set (follow_through ph) = {}
    \<and> range_set (backswing ph) \<inter> range_set (downswing ph) = {}
    \<and> range_set (backswing ph) \<inter> range_set (impact ph) = {}
    \<and> range_set (backswing ph) \<inter> range_set (follow_through ph) = {}
    \<and> range_set (downswing ph) \<inter> range_set (impact ph) = {}
    \<and> range_set (downswing ph) \<inter> range_set (follow_through ph) = {}
    \<and> range_set (impact ph) \<inter> range_set (follow_through ph) = {})
    \<and> (0 < range_len (address ph)
    \<and> 0 < range_len (backswing ph)
    \<and> 0 < range_len (downswing ph)
    \<and> 0 < range_len (follow_through ph))
    \<and> (0 < range_len (impact ph)) = (n \<noteq> 11 \<and> n \<noteq> 12 \<and> n \<noteq> 16)"
    by (rule conjI res contiguous cover disjoint nonempty impact_iff)+
  then show ?thesis
    unfolding n_def [symmetric] conj_assoc by (rule exI)
qed

theorem phases_partition_witness:
  "10 \<le> length (landmarks (still_pose_data 40 1))
   \<and> (\<exists>ph. analyze_swing_phases (still_pose_data 40 1) = Inr ph
      \<and> start (address ph) = 0
      \<and> stop (follow_through ph) = 40
      \<and> 0 < range_len (impact ph))"
proof -
  have h: "10 \<le> length (landmarks (still_pose_data 40 1))"
    by (simp add: still_pose_data_length)
  from phases_partition [OF h] obtain ph where
    "analyze_swing_phases (still_pose_data 40 1) = Inr ph"
    "start (address ph) = 0"
    "stop (follow_through ph) = length (landmarks (still_pose_data 40 1))"
    "(0 < range_len (impact ph)) =
        (length (landmarks (still_pose_data 40 1)) \<noteq> 11
         \<and> length (landmarks (still_pose_data 40 1)) \<noteq> 12
         \<and> length (landmarks (still_pose_data 40 1)) \<noteq> 16)"
    by (elim exE conjE)
  then have "analyze_swing_phases (still_pose_data 40 1) = Inr ph
      \<and> start (address ph) = 0
      \<and> stop (follow_through ph) = 40
      \<and> 0 < range_len (impact ph)"
    by (simp add: still_pose_data_length)
  then have "\<exists>ph. analyze_swing_phases (still_pose_data 40 1) = Inr ph
      \<and> start (address ph) = 0
      \<and> stop (follow_through ph) = 40
      \<and> 0 < range_len (impact ph)"
    by (rule exI)
  with h show ?thesis by (rule conjI)
qed

theorem phases_impact_empty_at_11:
  "length (landmarks (still_pose_data 11 1)) = 11
   \<and> analyze_swing_phases (still_pose_data 11 1) = Inr phases_of_11
   \<and> range_len (impact phases_of_11) = 0"
  by (simp add: still_pose_data_length analyze_swing_phases_def phases_of_11_def range_len_def)

section \<open>Properties of the metric extraction\<close>

lemma phase_lengths:
  fixes n :: nat
  assumes "10 \<le> n"
  shows "n div 4 + 2 \<le> n div 2" and "n div 2 + 2 \<le> 3 * n div 4" and "4 * n div 5 + 2 \<le> n"
    and "2 \<le> n div 4" and "n div 4 < n" and "n div 2 - 1 < n"
  using assms by linarith+

lemma range_len_mk: "range_len \<lparr> start = a, stop = b \<rparr> = (if b \<le> a then 0 else b - a)"
  by (simp add: range_len_def)

lemma backswing_angle_fixed:
  assumes "10 \<le> length lms"
  shows "calculate_backswing_angle lms \<lparr> start = length lms div 4, stop = length lms div 2 \<rparr> = Inr 45"
proof -
  note f = phase_lengths [OF assms]
  have l: "\<not> range_len \<lparr> start = length lms div 4, stop = length lms div 2 \<rparr> < 2"
    using f(1) by (simp add: range_len_mk)
  show ?thesis
    using f(5) f(6) l by (simp add: calculate_backswing_angle_def py_index_def Let_def)
qed

lemma metrics_fixed:
  assumes "10 \<le> length (landmarks pd)"
  shows "calculate_swing_metrics pd (split_phases (length (landmarks pd)))
     = Inr (constant_metrics \<lparr> tempo_ratio :=
              (if length (frame_timestamps pd) < 2 then 1 else 28 / 10) \<rparr>)"
proof -
  note f = phase_lengths [OF assms]
  have ba: "calculate_backswing_angle (landmarks pd)
      \<lparr> start = length (landmarks pd) div 4, stop = length (landmarks pd) div 2 \<rparr> = Inr 45"
    using assms by (rule backswing_angle_fixed)
  have ds: "calculate_downswing_speed (landmarks pd)
      \<lparr> start = length (landmarks pd) div 2, stop = 3 * length (landmarks pd) div 4 \<rparr> = 15"
    using f(2) by (simp add: calculate_downswing_speed_def range_len_mk)
  have hr: "calculate_hip_rotation (landmarks pd)
      \<lparr> start = length (landmarks pd) div 2, stop = 3 * length (landmarks pd) div 4 \<rparr> = 75"
    using f(2) by (simp add: calculate_hip_rotation_def range_len_mk)
  have ft: "calculate_follow_through (landmarks pd)
      \<lparr> start = 4 * length (landmarks pd) div 5, stop = length (landmarks pd) \<rparr> = 60"
    using f(3) by (simp add: calculate_follow_through_def range_len_mk)
  have sa: "calculate_shoulder_alignment (landmarks pd)
      \<lparr> start = 0, stop = length (landmarks pd) div 4 \<rparr> = 68"
    using f(4) by (simp add: calculate_shoulder_alignment_def range_len_mk)
  have wt: "calculate_weight_transfer (landmarks pd) ph = 75" for ph
    by (simp add: calculate_weight_transfer_def)
  have tr: "calculate_tempo_ratio (frame_timestamps pd) ph
      = (if length (frame_timestamps pd) < 2 then 1 else 28 / 10)" for ph
    by (simp add: calculate_tempo_ratio_def)
  show ?thesis
    by (simp add: calculate_swing_metrics_def split_phases_def ba ds hr ft sa wt tr constant_metrics_def)
qed

lemma analyze_swing_phases_split:
  assumes "10 \<le> length (landmarks pd)"
  shows "analyze_swing_phases pd = Inr (split_phases (length (landmarks pd)))"
  using assms by (simp add: analyze_swing_phases_def split_phases_def Let_def)

text \<open>
  Claim C10. Two pose data with the same number \<open>N \<ge> 10\<close> of frames and the same
  timestamps get the same phases and the same metrics, whatever their landmarks are; and
  when each of the five ranges holds at least 2 frames (the pose data having one timestamp
  per frame, as extraction builds it) the metrics are the constants 45.0, 15.0, 60.0, 75.0,
  68.0, 75.0 and 2.8.
\<close>

theorem metrics_ignore_landmarks:
  assumes "10 \<le> length (landmarks pd1)"
    and "length (landmarks pd2) = length (landmarks pd1)"
    and "frame_timestamps pd2 = frame_timestamps pd1"
  shows "\<exists>ph m. analyze_swing_phases pd1 = Inr ph \<and> analyze_swing_phases pd2 = Inr ph
    \<and> calculate_swing_metrics pd1 ph = Inr m \<and> calculate_swing_metrics pd2 ph = Inr m
    \<and> (2 \<le> range_len (address ph) \<and> 2 \<le> range_len (backswing ph)
        \<and> 2 \<le> range_len (downswing ph) \<and> 2 \<le> range_len (impact ph)
        \<and> 2 \<le> range_len (follow_through ph)
        \<and> length (frame_timestamps pd1) = length (landmarks pd1)
       \<longrightarrow> m = constant_metrics)"
proof -
  define n where "n = length (landmarks pd1)"
  define m where "m = constant_metrics \<lparr> tempo_ratio :=
              (if length (frame_timestamps pd1) < 2 then 1 else 28 / 10) \<rparr>"
  have n2: "10 \<le> length (landmarks pd2)" using assms by simp
  have p1: "analyze_swing_phases pd1 = Inr (split_phases n)"
    unfolding n_def using assms(1) by (rule analyze_swing_phases_split)
  have p2: "analyze_swing_phases pd2 = Inr (split_phases n)"
    using analyze_swing_phases_split [OF n2] assms(2) by (simp add: n_def)
  have m1: "calculate_swing_metrics pd1 (split_phases n) = Inr m"
    unfolding n_def m_def using assms(1) by (rule metrics_fixed)
  have m2: "calculate_swing_metrics pd2 (split_phases n) = Inr m"
    using metrics_fixed [OF n2] assms(2) assms(3) by (simp add: n_def m_def)
  have c: "length (frame_timestamps pd1) = length (landmarks pd1) \<Longrightarrow> m = constant_metrics"
    using assms(1) by (simp add: m_def constant_metrics_def)
  from p1 p2 m1 m2 c show ?thesis by blast
qed

lemma still_pose_data_timestamps: "length (frame_timestamps (still_pose_data n v)) = n"
  by (simp add: still_pose_data_def)

lemma split_phases_40: "split_phases 40 = phases_of_40"
  by (simp add: split_phases_def phases_of_40_def)

theorem metrics_ignore_landmarks_witness:
  "10 \<le> length (landmarks (still_pose_data 40 1))
   \<and> length (landmarks (still_pose_data 40 (1 / 2))) = length (landmarks (still_pose_data 40 1))
   \<and> frame_timestamps (still_pose_data 40 (1 / 2)) = frame_timestamps (still_pose_data 40 1)
   \<and> analyze_swing_phases (still_pose_data 40 1) = Inr phases_of_40
   \<and> 2 \<le> range_len (impact phases_of_40)
   \<and> calculate_swing_metrics (still_pose_data 40 1) phases_of_40 = Inr constant_metrics
   \<and> calculate_swing_metrics (still_pose_data 40 (1 / 2)) phases_of_40 = Inr constant_metrics"
proof -
  have h1: "10 \<le> length (landmarks (still_pose_data 40 1))"
    by (simp add: still_pose_data_length)
  have h2: "length (landmarks (still_pose_data 40 (1 / 2))) = length (landmarks (still_pose_data 40 1))"
    by (simp add: still_pose_data_length)
  have h3: "frame_timestamps (still_pose_data 40 (1 / 2)) = frame_timestamps (still_pose_data 40 1)"
    by (simp add: still_pose_data_def)
  have p: "analyze_swing_phases (still_pose_data 40 1) = Inr phases_of_40"
    using analyze_swing_phases_split [OF h1] by (simp add: still_pose_data_length split_phases_40)
  have r: "2 \<le> range_len (address phases_of_40) \<and> 2 \<le> range_len (backswing phases_of_40)
        \<and> 2 \<le> range_len (downswing phases_of_40) \<and> 2 \<le> range_len (impact phases_of_40)
        \<and> 2 \<le> range_len (follow_through phases_of_40)
        \<and> length (frame_timestamps (still_pose_data 40 1)) = length (landmarks (still_pose_data 40 1))"
    by (simp add: phases_of_40_def range_len_def still_pose_data_length still_pose_data_timestamps)
  from metrics_ignore_landmarks [OF h1 h2 h3] p r
  have "calculate_swing_metrics (still_pose_data 40 1) phases_of_40 = Inr constant_metrics
    \<and> calculate_swing_metrics (still_pose_data 40 (1 / 2)) phases_of_40 = Inr constant_metrics"
    by auto
  with h1 h2 h3 p r show ?thesis by simp
qed

text \<open>
  Claim C7, as the code has it. Whenever metric extraction returns a metric set, its
  backswing angle, follow-through angle and hip rotation lie in \<open>[0, 180]\<close>, its shoulder
  alignment and weight transfer in \<open>[0, 100]\<close> and its tempo ratio in \<open>[0.5, 5.0]\<close> (the
  downswing speed is not negative). The tempo ratio is not computed from the timestamps:
  it is the clamped constant 2.8, or 1.0 when there are fewer than two timestamps.
\<close>

theorem metrics_in_range:
  assumes "calculate_swing_metrics pd ph = Inr m"
  shows "0 \<le> backswing_angle m \<and> backswing_angle m \<le> 180
    \<and> 0 \<le> follow_through_angle m \<and> follow_through_angle m \<le> 180
    \<and> 0 \<le> hip_rotation m \<and> hip_rotation m \<le> 180
    \<and> 0 \<le> shoulder_alignment m \<and> shoulder_alignment m \<le> 100
    \<and> 0 \<le> weight_transfer m \<and> weight_transfer m \<le> 100
    \<and> 1 / 2 \<le> tempo_ratio m \<and> tempo_ratio m \<le> 5
    \<and> 0 \<le> downswing_speed m
    \<and> tempo_ratio m = (if length (frame_timestamps pd) < 2 then 1 else 28 / 10)"
proof -
  from assms obtain ba where
    ba: "calculate_backswing_angle (landmarks pd) (backswing ph) = Inr ba"
    and m: "m = \<lparr> backswing_angle = ba,
                downswing_speed = calculate_downswing_speed (landmarks pd) (downswing ph),
                follow_through_angle = calculate_follow_through (landmarks pd) (follow_through ph),
                hip_rotation = calculate_hip_rotation (landmarks pd) (downswing ph),
                shoulder_alignment = calculate_shoulder_alignment (landmarks pd) (address ph),
                weight_transfer = calculate_weight_transfer (landmarks pd) ph,
                tempo_ratio = calculate_tempo_ratio (frame_timestamps pd) ph \<rparr>"
    by (auto simp add: calculate_swing_metrics_def split: sum.splits)
  have b1: "0 \<le> ba \<and> ba \<le> 180"
    using ba by (auto simp add: calculate_backswing_angle_def Let_def split: if_splits sum.splits)
  have b2: "0 \<le> calculate_follow_through (landmarks pd) (follow_through ph)
      \<and> calculate_follow_through (landmarks pd) (follow_through ph) \<le> 180"
    by (simp add: calculate_follow_through_def)
  have b3: "0 \<le> calculate_hip_rotation (landmarks pd) (downswing ph)
      \<and> calculate_hip_rotation (landmarks pd) (downswing ph) \<le> 180"
    by (simp add: calculate_hip_rotation_def)
  have b4: "0 \<le> calculate_shoulder_alignment (landmarks pd) (address ph)
      \<and> calculate_shoulder_alignment (landmarks pd) (address ph) \<le> 100"
    by (simp add: calculate_shoulder_alignment_def)
  have b5: "0 \<le> calculate_weight_transfer (landmarks pd) ph
      \<and> calculate_weight_transfer (landmarks pd) ph \<le> 100"
    by (simp add: calculate_weight_transfer_def)
  have b6: "1 / 2 \<le> calculate_tempo_ratio (frame_timestamps pd) ph
      \<and> calculate_tempo_ratio (frame_timestamps pd) ph \<le> 5"
    by (simp add: calculate_tempo_ratio_def)
  have b7: "0 \<le> calculate_downswing_speed (landmarks pd) (downswing ph)"
    by (simp add: calculate_downswing_speed_def)
  have b8: "calculate_tempo_ratio (frame_timestamps pd) ph
      = (if length (frame_timestamps pd) < 2 then 1 else 28 / 10)"
    by (simp add: calculate_tempo_ratio_def)
  have sel: "backswing_angle m = ba"
    "follow_through_angle m = calculate_follow_through (landmarks pd) (follow_through ph)"
    "hip_rotation m = calculate_hip_rotation (landmarks pd) (downswing ph)"
    "shoulder_alignment m = calculate_shoulder_alignment (landmarks pd) (address ph)"
    "weight_transfer m = calculate_weight_transfer (landmarks pd) ph"
    "tempo_ratio m = calculate_tempo_ratio (frame_timestamps pd) ph"
    "downswing_speed m = calculate_downswing_speed (landmarks pd) (downswing ph)"
    by (simp_all add: m)
  show ?thesis
    unfolding sel using b1 b2 b3 b4 b5 b6 b7 b8 by blast
qed

lemma slow_backswing_length: "length (landmarks slow_backswing_pose_data) = 10"
  by (simp add: slow_backswing_pose_data_def)

lemma split_phases_10: "split_phases 10 = phases_of_10"
  by (simp add: split_phases_def phases_of_10_def)

lemma slow_backswing_metrics:
  "calculate_swing_metrics slow_backswing_pose_data phases_of_10 = Inr constant_metrics"
proof -
  have h: "10 \<le> length (landmarks slow_backswing_pose_data)"
    by (simp add: slow_backswing_length)
  have t: "length (frame_timestamps slow_backswing_pose_data) = 10"
    by (simp add: slow_backswing_pose_data_def)
  from metrics_fixed [OF h] show ?thesis
    by (simp add: slow_backswing_length split_phases_10 t constant_metrics_def)
qed

lemma slow_backswing_raw_ratio:
  "spec_raw_tempo_ratio (frame_timestamps slow_backswing_pose_data) phases_of_10 = 6"
  "spec_raw_tempo_ratio_span (frame_timestamps slow_backswing_pose_data) phases_of_10 = 6"
  by (simp_all add: spec_raw_tempo_ratio_def spec_raw_tempo_ratio_span_def phase_duration_def
      phase_span_def slow_backswing_pose_data_def phases_of_10_def)

theorem metrics_in_range_witness:
  "calculate_swing_metrics slow_backswing_pose_data phases_of_10 = Inr constant_metrics
   \<and> 0 \<le> backswing_angle constant_metrics \<and> backswing_angle constant_metrics \<le> 180
   \<and> 1 / 2 \<le> tempo_ratio constant_metrics \<and> tempo_ratio constant_metrics \<le> 5
   \<and> tempo_ratio constant_metrics = 28 / 10"
proof -
  have t: "length (frame_timestamps slow_backswing_pose_data) = 10"
    by (simp add: slow_backswing_pose_data_def)
  from metrics_in_range [OF slow_backswing_metrics] slow_backswing_metrics
  show ?thesis by (simp add: t)
qed

text \<open>
  Against claim C7: ten frames whose timestamps give the raw tempo ratio 6.0, by either
  reading of a phase's duration, on the phases the segmentation returns for them. Metric
  extraction reports the tempo ratio 2.8, not 5.0.
\<close>

theorem tempo_six_reported_as_constant:
  "length (landmarks slow_backswing_pose_data) = 10
   \<and> analyze_swing_phases slow_backswing_pose_data = Inr phases_of_10
   \<and> spec_raw_tempo_ratio (frame_timestamps slow_backswing_pose_data) phases_of_10 = 6
   \<and> spec_raw_tempo_ratio_span (frame_timestamps slow_backswing_pose_data) phases_of_10 = 6
   \<and> calculate_swing_metrics slow_backswing_pose_data phases_of_10 = Inr constant_metrics
   \<and> tempo_ratio constant_metrics = 28 / 10
   \<and> tempo_ratio constant_metrics \<noteq> 5"
proof -
  have h: "10 \<le> length (landmarks slow_backswing_pose_data)"
    by (simp add: slow_backswing_length)
  have p: "analyze_swing_phases slow_backswing_pose_data = Inr phases_of_10"
    using analyze_swing_phases_split [OF h] by (simp add: slow_backswing_length split_phases_10)
  have c: "tempo_ratio constant_metrics = 28 / 10 \<and> tempo_ratio constant_metrics \<noteq> 5"
    by (simp add: constant_metrics_def)
  from slow_backswing_length p slow_backswing_raw_ratio slow_backswing_metrics c
  show ?thesis by blast
qed

section \<open>Properties of the scoring\<close>

lemma generate_scores_rule_based:
  shows "form_score (generate_scores a pd m) = rule_based_form_score m"
    and "tempo_score (generate_scores a pd m) = rule_based_tempo_score m"
    and "power_score (generate_scores a pd m) = rule_based_power_score m"
    and "accuracy_score (generate_scores a pd m) = rule_based_accuracy_score m"
  by (simp_all add: generate_scores_def Let_def predict_form_score_def predict_tempo_score_def
      predict_power_score_def predict_accuracy_score_def split: option.split)

lemma generate_scores_no_models:
  assumes "form_model a = None" and "tempo_model a = None"
    and "power_model a = None" and "accuracy_model a = None"
  shows "generate_scores a pd m =
     \<lparr> form_score = rule_based_form_score m, tempo_score = rule_based_tempo_score m,
       power_score = rule_based_power_score m, accuracy_score = rule_based_accuracy_score m,
       overall_score = (rule_based_form_score m + rule_based_tempo_score m
          + rule_based_power_score m + rule_based_accuracy_score m) / 4 \<rparr>"
  using assms by (simp add: generate_scores_def Let_def)

lemma form_table:
  "rule_based_form_score m =
     min 100 (70 + bonus (shoulder_alignment m > 80) 10 + bonus (hip_rotation m > 70) 10
                + bonus (weight_transfer m > 80) 10)"
  by (simp add: rule_based_form_score_def bonus_def Let_def)

lemma tempo_table:
  "rule_based_tempo_score m =
     min 100 (70 + bonus (25 / 10 \<le> tempo_ratio m \<and> tempo_ratio m \<le> 35 / 10) 20
       + bonus ((2 \<le> tempo_ratio m \<and> tempo_ratio m \<le> 4)
                 \<and> \<not> (25 / 10 \<le> tempo_ratio m \<and> tempo_ratio m \<le> 35 / 10)) 10)"
  by (simp add: rule_based_tempo_score_def bonus_def Let_def)

lemma power_table:
  "rule_based_power_score m =
     min 100 (70 + bonus (downswing_speed m > 20) 15 + bonus (hip_rotation m > 80) 15)"
  by (simp add: rule_based_power_score_def bonus_def Let_def)

lemma accuracy_table:
  "rule_based_accuracy_score m =
     min 100 (70 + bonus (shoulder_alignment m > 85) 15 + bonus (weight_transfer m > 85) 15)"
  by (simp add: rule_based_accuracy_score_def bonus_def Let_def)

lemma form_scenario:
  assumes "shoulder_alignment m = 90" and "hip_rotation m = 75" and "weight_transfer m = 85"
  shows "rule_based_form_score m = 100"
  using assms by (simp add: rule_based_form_score_def Let_def)

lemma tempo_at_four:
  assumes "tempo_ratio m = 4"
  shows "rule_based_tempo_score m = 80"
  using assms by (simp add: rule_based_tempo_score_def Let_def)

text \<open>
  Claim C2. For every analyzer, pose data and metric set, the overall score that
  \<open>generate_scores\<close> returns is the arithmetic mean of its four category scores; it is not
  the 40/60 blend of the tempo and form scores that \<open>calculate_overall_score\<close> of the second
  analyzer computes, from which it differs on some metric set.
\<close>

theorem overall_score_is_mean:
  "overall_score (generate_scores a pd m)
     = (form_score (generate_scores a pd m) + tempo_score (generate_scores a pd m)
        + power_score (generate_scores a pd m) + accuracy_score (generate_scores a pd m)) / 4
   \<and> (\<exists>m'. overall_score (generate_scores a pd m')
          \<noteq> calculate_overall_score (Some (tempo_score (generate_scores a pd m')))
               (Some (form_score (generate_scores a pd m'))))"
proof
  show "overall_score (generate_scores a pd m)
     = (form_score (generate_scores a pd m) + tempo_score (generate_scores a pd m)
        + power_score (generate_scores a pd m) + accuracy_score (generate_scores a pd m)) / 4"
    by (simp add: generate_scores_def Let_def)
next
  have "overall_score (generate_scores a pd sample_metrics)
          \<noteq> calculate_overall_score (Some (tempo_score (generate_scores a pd sample_metrics)))
               (Some (form_score (generate_scores a pd sample_metrics)))"
    by (simp add: generate_scores_def Let_def sample_metrics_def calculate_overall_score_def
        predict_form_score_def predict_tempo_score_def predict_power_score_def
        predict_accuracy_score_def rule_based_form_score_def rule_based_tempo_score_def
        rule_based_power_score_def rule_based_accuracy_score_def split: option.split)
  then show "\<exists>m'. overall_score (generate_scores a pd m')
          \<noteq> calculate_overall_score (Some (tempo_score (generate_scores a pd m')))
               (Some (form_score (generate_scores a pd m')))"
    by (rule exI)
qed

text \<open>
  Claim C3, as the code has it. With no model loaded, each category score is the base 70
  plus the bonuses of the rule table, capped at 100 (the power threshold is 20);
  shoulder alignment 90, hip rotation 75 and weight transfer 85 give the form score 100;
  and the tempo bonus of 10 applies exactly when the tempo ratio lies in the closed interval
  \<open>[2.0, 4.0]\<close> and outside \<open>[2.5, 3.5]\<close>, so that the tempo ratio 4.0 earns it: the tempo
  score is 80.
\<close>

theorem rule_table_scores:
  assumes "form_model a = None" and "tempo_model a = None"
    and "power_model a = None" and "accuracy_model a = None"
  shows "form_score (generate_scores a pd m) =
       min 100 (70 + bonus (shoulder_alignment m > 80) 10 + bonus (hip_rotation m > 70) 10
                  + bonus (weight_transfer m > 80) 10)
    \<and> tempo_score (generate_scores a pd m) =
       min 100 (70 + bonus (25 / 10 \<le> tempo_ratio m \<and> tempo_ratio m \<le> 35 / 10) 20
          + bonus ((2 \<le> tempo_ratio m \<and> tempo_ratio m \<le> 4)
                    \<and> \<not> (25 / 10 \<le> tempo_ratio m \<and> tempo_ratio m \<le> 35 / 10)) 10)
    \<and> power_score (generate_scores a pd m) =
       min 100 (70 + bonus (downswing_speed m > 20) 15 + bonus (hip_rotation m > 80) 15)
    \<and> accuracy_score (generate_scores a pd m) =
       min 100 (70 + bonus (shoulder_alignment m > 85) 15 + bonus (weight_transfer m > 85) 15)
    \<and> (shoulder_alignment m = 90 \<and> hip_rotation m = 75 \<and> weight_transfer m = 85
         \<longrightarrow> form_score (generate_scores a pd m) = 100)
    \<and> (tempo_ratio m = 4 \<longrightarrow> tempo_score (generate_scores a pd m) = 80)"
proof -
  note g = generate_scores_no_models [OF assms, where pd = pd and m = m]
  have f: "form_score (generate_scores a pd m) = rule_based_form_score m"
    and t: "tempo_score (generate_scores a pd m) = rule_based_tempo_score m"
    and p: "power_score (generate_scores a pd m) = rule_based_power_score m"
    and c: "accuracy_score (generate_scores a pd m) = rule_based_accuracy_score m"
    by (simp_all add: g)
  show ?thesis
    unfolding f t p c
    using form_table [of m] tempo_table [of m] power_table [of m] accuracy_table [of m]
      form_scenario [of m] tempo_at_four [of m]
    by blast
qed

theorem rule_table_scores_witness:
  "form_model no_models = None \<and> tempo_model no_models = None
   \<and> power_model no_models = None \<and> accuracy_model no_models = None
   \<and> shoulder_alignment sample_metrics = 90 \<and> hip_rotation sample_metrics = 75
   \<and> weight_transfer sample_metrics = 85 \<and> tempo_ratio sample_metrics = 4
   \<and> form_score (generate_scores no_models (still_pose_data 40 1) sample_metrics) = 100
   \<and> tempo_score (generate_scores no_models (still_pose_data 40 1) sample_metrics) = 80"
proof -
  have h: "form_model no_models = None" "tempo_model no_models = None"
    "power_model no_models = None" "accuracy_model no_models = None"
    by (simp_all add: no_models_def)
  have v: "shoulder_alignment sample_metrics = 90 \<and> hip_rotation sample_metrics = 75
    \<and> weight_transfer sample_metrics = 85" "tempo_ratio sample_metrics = 4"
    by (simp_all add: sample_metrics_def)
  from rule_table_scores [OF h, where m = sample_metrics and pd = "still_pose_data 40 1"] v
  have "form_score (generate_scores no_models (still_pose_data 40 1) sample_metrics) = 100
    \<and> tempo_score (generate_scores no_models (still_pose_data 40 1) sample_metrics) = 80"
    by blast
  with h v show ?thesis by simp
qed

theorem tempo_four_earns_bonus:
  "form_model no_models = None \<and> tempo_model no_models = None
   \<and> power_model no_models = None \<and> accuracy_model no_models = None
   \<and> tempo_ratio sample_metrics = 4
   \<and> tempo_score (generate_scores no_models (still_pose_data 40 1) sample_metrics) = 80
   \<and> tempo_score (generate_scores no_models (still_pose_data 40 1) sample_metrics) \<noteq> 70"
  by (simp add: no_models_def sample_metrics_def generate_scores_def Let_def
      rule_based_tempo_score_def)


section \<open>Properties of the extraction and the confidence\<close>

lemma detected_frames_simps:
  "detected_frames [] = []"
  "detected_frames (None # fs) = detected_frames fs"
  "detected_frames (Some lms # fs) = lms # detected_frames fs"
  by (simp_all add: detected_frames_def map_filter_simps)

lemma detected_frames_replicate: "detected_frames (replicate n (Some f)) = replicate n f"
  by (induction n) (simp_all add: detected_frames_simps)

lemma extract_loop_Inr:
  assumes "extract_loop fps fs k pd = Inr pd'"
  shows "landmarks pd' = landmarks pd @ detected_frames fs
    \<and> confidence_scores pd' = confidence_scores pd
         @ map (\<lambda>lms. lm_visibility (lms ! 0)) (detected_frames fs)
    \<and> length (frame_timestamps pd') = length (frame_timestamps pd) + length (detected_frames fs)"
  using assms
proof (induction fps fs k pd rule: extract_loop.induct)
  case (1 fps frame_count pd)
  then show ?case by (simp add: detected_frames_simps)
next
  case (2 fps rest frame_count pd)
  then show ?case by (simp add: detected_frames_simps)
next
  case (3 fps lms rest frame_count pd)
  from "3.prems" have nz: "fps \<noteq> 0" by (auto split: if_splits)
  from "3.prems" nz obtain l0 where l0: "py_index lms 0 = Inr l0"
    by (auto split: sum.splits)
  from l0 have v: "l0 = lms ! 0" by (auto simp add: py_index_def split: if_splits)
  from "3.prems" nz l0 have "extract_loop fps rest (frame_count + 1)
            \<lparr> landmarks = landmarks pd @ [lms],
              frame_timestamps = frame_timestamps pd @ [real frame_count / fps],
              confidence_scores = confidence_scores pd @ [lm_visibility l0] \<rparr> = Inr pd'"
    by simp
  from "3.IH" [OF nz l0 this] show ?case by (simp add: detected_frames_simps v)
qed

lemma extract_loop_total:
  assumes "fps \<noteq> 0" and "list_all (\<lambda>lms. lms \<noteq> []) (detected_frames fs)"
  shows "\<exists>pd'. extract_loop fps fs k pd = Inr pd'"
  using assms
proof (induction fps fs k pd rule: extract_loop.induct)
  case (1 fps frame_count pd)
  then show ?case by simp
next
  case (2 fps rest frame_count pd)
  then show ?case by (simp add: detected_frames_simps)
next
  case (3 fps lms rest frame_count pd)
  from "3.prems" have ne: "lms \<noteq> []" and rest: "list_all (\<lambda>lms. lms \<noteq> []) (detected_frames rest)"
    by (simp_all add: detected_frames_simps)
  from ne have l0: "py_index lms 0 = Inr (lms ! 0)" by (simp add: py_index_def)
  from "3.IH" [OF "3.prems"(1) l0 "3.prems"(1) rest] "3.prems"(1) l0 show ?case by simp
qed

lemma uniform_video_extracts:
  "\<exists>pd. extract_pose_data (uniform_video n v) = Inr pd
     \<and> landmarks pd = replicate n (uniform_frame (1 / 2) v)
     \<and> confidence_scores pd = replicate n v"
proof -
  have "list_all (\<lambda>lms. lms \<noteq> []) (detected_frames (vid_frames (uniform_video n v)))"
    by (simp add: uniform_video_def detected_frames_replicate uniform_frame_def list_all_iff)
  moreover have "vid_fps (uniform_video n v) \<noteq> 0" by (simp add: uniform_video_def)
  ultimately obtain pd where pd: "extract_pose_data (uniform_video n v) = Inr pd"
    unfolding extract_pose_data_def using extract_loop_total by blast
  from extract_loop_Inr [OF pd [unfolded extract_pose_data_def]]
  have "landmarks pd = replicate n (uniform_frame (1 / 2) v)
     \<and> confidence_scores pd = replicate n v"
    by (simp add: uniform_video_def detected_frames_replicate uniform_frame_def)
  with pd show ?thesis by blast
qed

lemma confidence_bounds: "0 \<le> calculate_confidence pd \<and> calculate_confidence pd \<le> 100"
  by (simp add: calculate_confidence_def Let_def)

lemma confidence_uniform:
  assumes "confidence_scores pd = replicate n v" and "0 < n" and "0 \<le> v" and "v \<le> 1"
  shows "calculate_confidence pd = v * 100"
proof -
  from assms(2) have ne: "replicate n v \<noteq> []" by simp
  have "sum_list (replicate n v) / real n = v"
    using assms(2) by (simp add: sum_list_replicate)
  then show ?thesis
    using assms ne by (simp add: calculate_confidence_def Let_def)
qed

text \<open>
  Claim C4, as the code has it. The confidence scores that extraction records are the
  visibilities of landmark 0 of the frames with a detected pose, one per frame; the
  confidence is their mean times 100, clamped to \<open>[0, 100]\<close>, and 0 when no frame has a
  detected pose. It is a total function with values in \<open>[0, 100]\<close>, and twelve frames whose
  recorded visibility is 0.8 give 80 (in exact arithmetic).
\<close>

theorem confidence_from_landmark_zero:
  assumes "extract_pose_data v = Inr pd"
  shows "confidence_scores pd = map (\<lambda>lms. lm_visibility (lms ! 0)) (detected_frames (vid_frames v))
    \<and> calculate_confidence pd =
        (if detected_frames (vid_frames v) = [] then 0
         else max 0 (min 100
           (sum_list (confidence_scores pd) / real (length (confidence_scores pd)) * 100)))
    \<and> 0 \<le> calculate_confidence pd \<and> calculate_confidence pd \<le> 100
    \<and> (confidence_scores pd = replicate 12 (8 / 10) \<longrightarrow> calculate_confidence pd = 80)"
proof -
  from extract_loop_Inr [OF assms [unfolded extract_pose_data_def]]
  have cs: "confidence_scores pd
      = map (\<lambda>lms. lm_visibility (lms ! 0)) (detected_frames (vid_frames v))"
    by simp
  have e: "(confidence_scores pd = []) = (detected_frames (vid_frames v) = [])"
    by (simp add: cs)
  have c: "calculate_confidence pd =
        (if detected_frames (vid_frames v) = [] then 0
         else max 0 (min 100
           (sum_list (confidence_scores pd) / real (length (confidence_scores pd)) * 100)))"
    unfolding e [symmetric] by (simp add: calculate_confidence_def Let_def)
  have u: "confidence_scores pd = replicate 12 (8 / 10) \<Longrightarrow> calculate_confidence pd = 80"
    using confidence_uniform [of pd 12 "8 / 10"] by simp
  from cs c confidence_bounds [of pd] u show ?thesis by blast
qed

theorem confidence_from_landmark_zero_witness:
  "\<exists>pd. extract_pose_data (uniform_video 12 (8 / 10)) = Inr pd
     \<and> confidence_scores pd = replicate 12 (8 / 10)
     \<and> calculate_confidence pd = 80"
proof -
  from uniform_video_extracts [of 12 "8 / 10"] obtain pd where
    pd: "extract_pose_data (uniform_video 12 (8 / 10)) = Inr pd"
    and cs: "confidence_scores pd = replicate 12 (8 / 10)"
    by blast
  from confidence_from_landmark_zero [OF pd] cs have "calculate_confidence pd = 80" by blast
  with pd cs show ?thesis by blast
qed

theorem confidence_not_all_landmarks:
  "extract_pose_data nose_only_video = Inr nose_only_pose_data
   \<and> calculate_confidence nose_only_pose_data = 100
   \<and> spec_confidence nose_only_pose_data = 100 / 33"
  by (simp add: extract_pose_data_def nose_only_video_def nose_only_pose_data_def
      nose_only_frame_def py_index_def calculate_confidence_def spec_confidence_def
      sum_list_replicate)

section \<open>Properties of the pipeline\<close>

text \<open>
  Claim C5. When extraction yields pose data with fewer than 10 frames, the segmentation
  raises the insufficient-frames error and \<open>analyze_swing\<close> ends with that error: its result
  is the exception, with no analysis data.
\<close>

theorem too_few_frames_fail:
  assumes "extract_pose_data v = Inr pd" and "length (landmarks pd) < 10"
  shows "analyze_swing_phases pd = Inl (ValueError ''Insufficient frames for swing analysis'')
    \<and> analyze_swing a validate t_start t_done t_stamp v
        = Inl (ValueError ''Insufficient frames for swing analysis'')"
  using assms by (simp add: analyze_swing_def analyze_swing_phases_def Let_def)

theorem too_few_frames_fail_witness:
  "(\<exists>pd. extract_pose_data (uniform_video 9 (8 / 10)) = Inr pd \<and> length (landmarks pd) < 10)
   \<and> analyze_swing no_models Inr 0 1 1 (uniform_video 9 (8 / 10))
        = Inl (ValueError ''Insufficient frames for swing analysis'')"
proof -
  from uniform_video_extracts [of 9 "8 / 10"] obtain pd where
    pd: "extract_pose_data (uniform_video 9 (8 / 10)) = Inr pd"
    and l: "landmarks pd = replicate 9 (uniform_frame (1 / 2) (8 / 10))"
    by blast
  from l have n: "length (landmarks pd) < 10" by simp
  from too_few_frames_fail [OF pd n, of no_models Inr 0 1 1] pd n show ?thesis by blast
qed


section \<open>The segmentation against the specified impact detection\<close>

lemma spec_middle_10: "spec_middle 10 = [2, 3, 4, 5, 6, 7]"
  by (simp add: spec_middle_def upt_rec_numeral)

lemma jump_length: "length (landmarks jump_pose_data) = 10"
  by (simp add: jump_pose_data_def)

lemma jump_speeds:
  "spec_wrist_speed_sq jump_pose_data 2 = 0"
  "spec_wrist_speed_sq jump_pose_data 3 = 0"
  "spec_wrist_speed_sq jump_pose_data 4 = 2700"
  "spec_wrist_speed_sq jump_pose_data 5 = 0"
  "spec_wrist_speed_sq jump_pose_data 6 = 0"
  "spec_wrist_speed_sq jump_pose_data 7 = 0"
  by (simp_all add: spec_wrist_speed_sq_def jump_pose_data_def uniform_frame_def wrist_def
      sq_dist_def power2_eq_square)

lemma jump_candidate: "spec_impact_candidate jump_pose_data = Some 4"
  by (simp add: spec_impact_candidate_def jump_length spec_middle_10 jump_speeds)

lemma jump_not_degenerate: "\<not> spec_degenerate jump_pose_data"
  by (simp add: spec_degenerate_def jump_length spec_middle_10 jump_speeds Let_def)

text \<open>
  Against claim C8: ten frames whose only wrist movement is at frame 4. The speed signal is
  not degenerate and its earliest maximum in the middle of the sequence is frame 4, but the
  impact range of the code is \<open>[7, 8)\<close>.
\<close>

theorem impact_not_at_speed_peak:
  "length (landmarks jump_pose_data) = 10
   \<and> \<not> spec_degenerate jump_pose_data
   \<and> spec_impact_candidate jump_pose_data = Some 4
   \<and> analyze_swing_phases jump_pose_data = Inr phases_of_10
   \<and> start (impact phases_of_10) = 7
   \<and> 4 \<notin> range_set (impact phases_of_10)"
  using jump_length jump_not_degenerate jump_candidate
  by (simp add: analyze_swing_phases_def phases_of_10_def range_set_def)

text \<open>
  Claim C8, as the code has it. For every pose data with \<open>N \<ge> 10\<close> frames, degenerate
  speed signal or not, the segmentation is the fixed proportional split: address
  \<open>[0, N div 4)\<close>, backswing \<open>[N div 4, N div 2)\<close>, downswing \<open>[N div 2, 3N div 4)\<close>,
  impact \<open>[3N div 4, 4N div 5)\<close>, follow_through \<open>[4N div 5, N)\<close>. It depends on the
  number of frames only: pose data with the same number of frames get the same phases.
\<close>

theorem fixed_split_always:
  assumes "10 \<le> length (landmarks pd)" and "length (landmarks pd') = length (landmarks pd)"
  shows "analyze_swing_phases pd = Inr (split_phases (length (landmarks pd)))
    \<and> analyze_swing_phases pd' = analyze_swing_phases pd
    \<and> address (split_phases (length (landmarks pd)))
         = \<lparr> start = 0, stop = length (landmarks pd) div 4 \<rparr>
    \<and> backswing (split_phases (length (landmarks pd)))
         = \<lparr> start = length (landmarks pd) div 4, stop = length (landmarks pd) div 2 \<rparr>
    \<and> downswing (split_phases (length (landmarks pd)))
         = \<lparr> start = length (landmarks pd) div 2, stop = 3 * length (landmarks pd) div 4 \<rparr>
    \<and> impact (split_phases (length (landmarks pd)))
         = \<lparr> start = 3 * length (landmarks pd) div 4, stop = 4 * length (landmarks pd) div 5 \<rparr>
    \<and> follow_through (split_phases (length (landmarks pd)))
         = \<lparr> start = 4 * length (landmarks pd) div 5, stop = length (landmarks pd) \<rparr>"
proof -
  from assms have n': "10 \<le> length (landmarks pd')" by simp
  have p: "analyze_swing_phases pd = Inr (split_phases (length (landmarks pd)))"
    using assms(1) by (rule analyze_swing_phases_split)
  have p': "analyze_swing_phases pd' = Inr (split_phases (length (landmarks pd)))"
    using analyze_swing_phases_split [OF n'] assms(2) by simp
  from p p' show ?thesis by (simp add: split_phases_def)
qed

theorem fixed_split_always_witness:
  "10 \<le> length (landmarks jump_pose_data)
   \<and> length (landmarks (still_pose_data 10 1)) = length (landmarks jump_pose_data)
   \<and> analyze_swing_phases (still_pose_data 10 1) = analyze_swing_phases jump_pose_data
   \<and> analyze_swing_phases jump_pose_data = Inr phases_of_10"
proof -
  have h1: "10 \<le> length (landmarks jump_pose_data)" by (simp add: jump_length)
  have h2: "length (landmarks (still_pose_data 10 1)) = length (landmarks jump_pose_data)"
    by (simp add: jump_length still_pose_data_length)
  have s: "split_phases 10 = phases_of_10" by (simp add: split_phases_def phases_of_10_def)
  from fixed_split_always [OF h1 h2] h1 h2 show ?thesis by (simp add: jump_length s)
qed

section \<open>Properties of the recommendations\<close>

lemma rec_strengths:
  "strengths (generate_recommendations s m) =
     (if map strength_text (filter (\<lambda>c. category_score s c > 85) categories) = []
      then [''Good overall technique'']
      else map strength_text (filter (\<lambda>c. category_score s c > 85) categories))"
  by (simp add: generate_recommendations_def categories_def Let_def)

lemma rec_areas:
  "areas_for_improvement (generate_recommendations s m) =
     map area_text (filter (\<lambda>c. category_score s c < 80) categories)"
  by (simp add: generate_recommendations_def categories_def Let_def)

lemma rec_specific:
  "specific_recommendations (generate_recommendations s m) =
     map recommendation_text (filter (\<lambda>c. category_score s c < 80) categories)"
  by (simp add: generate_recommendations_def categories_def Let_def)

lemma rec_drills:
  "practice_drills (generate_recommendations s m) =
     map drill_text (filter (\<lambda>c. category_score s c < 80) categories)"
  by (simp add: generate_recommendations_def categories_def Let_def)

lemma rec_priority:
  "priority_level (generate_recommendations s m) =
     (if Min (set (map (category_score s) categories)) < 70 then ''high''
      else if Min (set (map (category_score s) categories)) < 80 then ''medium''
      else ''low'')"
proof -
  have "Min (set (map (category_score s) categories))
      = min (form_score s) (min (tempo_score s) (min (power_score s) (accuracy_score s)))"
    by (simp add: categories_def)
  then show ?thesis
    by (simp add: generate_recommendations_def Let_def split_def)
qed

text \<open>
  Claim C9. The strengths are the strength strings of the categories with score above 85,
  in the order form, tempo, power, accuracy, or the single generic strength when there is
  none; the improvement areas, specific recommendations and practice drills are the strings
  of the categories with score below 80, in the same order; the priority level is high
  when the least category score is below 70, medium when it is below 80, low otherwise.
\<close>

theorem recommendations_by_category:
  "strengths (generate_recommendations s m) =
     (if map strength_text (filter (\<lambda>c. category_score s c > 85) categories) = []
      then [''Good overall technique'']
      else map strength_text (filter (\<lambda>c. category_score s c > 85) categories))
   \<and> areas_for_improvement (generate_recommendations s m) =
       map area_text (filter (\<lambda>c. category_score s c < 80) categories)
   \<and> specific_recommendations (generate_recommendations s m) =
       map recommendation_text (filter (\<lambda>c. category_score s c < 80) categories)
   \<and> practice_drills (generate_recommendations s m) =
       map drill_text (filter (\<lambda>c. category_score s c < 80) categories)
   \<and> priority_level (generate_recommendations s m) =
       (if Min (set (map (category_score s) categories)) < 70 then ''high''
        else if Min (set (map (category_score s) categories)) < 80 then ''medium''
        else ''low'')"
  by (rule conjI rec_strengths rec_areas rec_specific rec_drills rec_priority)+

theorem recommendations_by_category_witness:
  "strengths (generate_recommendations sample_scores sample_metrics)
     = [''Excellent form fundamentals'']
   \<and> areas_for_improvement (generate_recommendations sample_scores sample_metrics)
     = [''Tempo control'', ''Power generation'']
   \<and> practice_drills (generate_recommendations sample_scores sample_metrics)
     = [''Metronome practice with slow motion swings'',
        ''Medicine ball throws for power development'']
   \<and> priority_level (generate_recommendations sample_scores sample_metrics) = ''high''"
  using recommendations_by_category [of sample_scores sample_metrics]
  by (simp add: categories_def sample_scores_def)

section \<open>Properties of the batch endpoint\<close>

lemma count_successful_response:
  assumes "ResponseObject r \<in> set rs"
  shows "count_successful rs = Inl (AttributeError no_get_message)"
  using assms
proof (induction rs)
  case Nil
  then show ?case by simp
next
  case (Cons x xs)
  show ?case
  proof (cases x)
    case (ResponseObject r0)
    then show ?thesis by simp
  next
    case (ErrorDict ok err uid)
    with Cons show ?thesis by auto
  qed
qed

lemma analyze_batch_response_object:
  assumes "api_key_ok" and "item \<in> set requests"
    and "app_analyze_swing initialized (fst item) (snd item) = Inr r"
  shows "analyze_batch api_key_ok initialized requests
     = Inl (HTTPException 500 (''Batch analysis failed: '' @ no_get_message))"
proof -
  from assms(3) have "batch_item initialized item = ResponseObject r"
    by (simp add: batch_item_def)
  with assms(2) have "ResponseObject r \<in> set (map (batch_item initialized) requests)"
    by force
  then have "count_successful (map (batch_item initialized) requests)
      = Inl (AttributeError no_get_message)"
    by (rule count_successful_response)
  with assms(1) show ?thesis by (simp add: analyze_batch_def Let_def)
qed

lemma good_item: "app_analyze_swing True (request_of uid) good_collaborators = Inr good_response"
  by (simp add: app_analyze_swing_def request_of_def good_collaborators_def build_response_def
      calculate_overall_score_def app_calculate_confidence_def good_response_def Let_def)

lemma short_item:
  "app_analyze_swing True (request_of uid) short_collaborators
     = Inr (error_response (ValueError ''Failed to estimate pose from video''))"
  by (simp add: app_analyze_swing_def request_of_def short_collaborators_def)

text \<open>
  Claim C6, on the code: a batch of three requests in which the first and the third are
  analysed and the second has no usable pose data. Each of the three calls returns an
  \<^verbatim>\<open>AnalysisResponse\<close> object (the second with its error message), but counting the
  successful entries calls \<^verbatim>\<open>get\<close> on the first of them, and the batch ends with an
  HTTPException of status 500 instead of a result list.
\<close>

theorem batch_aborts_on_response_object:
  "map (batch_item True) sample_batch =
     [ResponseObject good_response,
      ResponseObject (error_response (ValueError ''Failed to estimate pose from video'')),
      ResponseObject good_response]
   \<and> analyze_batch True True sample_batch
     = Inl (HTTPException 500 (''Batch analysis failed: '' @ no_get_message))"
proof -
  have items: "map (batch_item True) sample_batch =
     [ResponseObject good_response,
      ResponseObject (error_response (ValueError ''Failed to estimate pose from video'')),
      ResponseObject good_response]"
    by (simp add: sample_batch_def batch_item_def good_item short_item)
  then have "analyze_batch True True sample_batch
     = Inl (HTTPException 500 (''Batch analysis failed: '' @ no_get_message))"
    by (simp add: analyze_batch_def Let_def)
  with items show ?thesis by (rule conjI)
qed


end
